theory Spec2Isabelle
  imports Main
begin

section \<open>Data model\<close>

text \<open>
  The repository holds two versions of the reconciler: the file
  \<^verbatim>\<open>controllers/rediscluster_controller.go\<close> (the newer one; its definitions keep the
  source's names) and an older version of the same file (its definitions carry the suffix
  \<^verbatim>\<open>_old\<close>). Both are embedded.
\<close>

subsection \<open>Lifecycle states\<close>

text \<open>\<^verbatim>\<open>type RedisClusterState string\<close>: the lifecycle state is a string, and the
  six named states are string constants. A status field may hold any other string too.\<close>

type_synonym RedisClusterState = string

definition NotExists :: RedisClusterState where "NotExists = ''NotExists''"
definition Reset :: RedisClusterState where "Reset = ''Reset''"
definition Ready :: RedisClusterState where "Ready = ''Ready''"
definition Recovering :: RedisClusterState where "Recovering = ''Recovering''"
definition Updating :: RedisClusterState where "Updating = ''Updating''"
definition Scale :: RedisClusterState where "Scale = ''Scale''"

subsection \<open>Errors, the cluster object, the result of a tick\<close>

text \<open>A Go \<^verbatim>\<open>error\<close> value: the API status reason (what \<^verbatim>\<open>apierrors.IsNotFound\<close>
  and \<^verbatim>\<open>apierrors.IsConflict\<close> look at) and a message. \<^verbatim>\<open>nil\<close> is \<open>None\<close> of
  \<open>error option\<close>.\<close>

datatype StatusReason = StatusReasonNotFound | StatusReasonConflict | StatusReasonOther

datatype error = Error StatusReason string

fun IsNotFound :: "error option \<Rightarrow> bool" where
  "IsNotFound None = False"
| "IsNotFound (Some (Error r m)) = (r = StatusReasonNotFound)"

text \<open>\<^verbatim>\<open>client.IgnoreNotFound\<close> of controller-runtime: \<^verbatim>\<open>nil\<close> for a not-found error,
  the error itself otherwise.\<close>

definition IgnoreNotFound :: "error option \<Rightarrow> error option" where
  "IgnoreNotFound err = (if IsNotFound err then None else err)"

text \<open>The fields of \<^verbatim>\<open>dbv1.RedisCluster\<close> that the reconciler reads and writes.\<close>

record RedisCluster =
  Spec_LeaderCount :: int
  Spec_LeaderFollowersCount :: int
  Status_ClusterState :: string

text \<open>\<^verbatim>\<open>ctrl.Result\<close>; \<^verbatim>\<open>RequeueAfter\<close> is a \<^verbatim>\<open>time.Duration\<close>, a count of
  nanoseconds.\<close>

record Result =
  Requeue :: bool
  RequeueAfter :: int

definition Second :: int where "Second = 1000000000"

definition Result_zero :: Result where
  "Result_zero = \<lparr>Requeue = False, RequeueAfter = 0\<rparr>"

subsection \<open>Effects\<close>

text \<open>
  What a tick does besides computing its result is recorded, in order, as a list of events:
  log lines, writes of the status to the API server (\<open>StatusUpdate\<close> carries the
  \<^verbatim>\<open>Status.ClusterState\<close> that is sent), the regeneration of the cluster state view
  (\<open>CreateStateView\<close>), and the calls into the parts of the operator that are outside the
  files embedded here. \<open>Handler h\<close> marks the entry into a state handler.
\<close>

datatype handler = HInitializing | HReady | HRecovering | HUpdating | HScale

datatype event =
    Println string
  | LogInfo string
  | LogError error string
  | Handler handler
  | GetCluster
  | StatusUpdate string
  | CreateStateView int int
  | GetClusterStateView
  | UpdateClusterStateView
  | CreateClusterStateView
  | DeleteClusterStateView
  | DeleteAllRedisClusterPods
  | CreateNewRedisCluster
  | InitializeFollowers
  | NewRedisClusterView
  | IsClusterComplete
  | IsClusterUpToDate
  | IsScaleRequired
  | ForgetLostNodes
  | ScaleCluster
  | RecoverCluster
  | UpdateCluster
  | SaveRedisClusterView
  | SaveRedisClusterState string
  | SetViewClusterState string
  | SetNodeState string string
  | JsonMarshal
  | Printf

text \<open>
  The engines \<^verbatim>\<open>createNewRedisCluster\<close>, \<^verbatim>\<open>initializeFollowers\<close>,
  \<^verbatim>\<open>scaleCluster\<close>, \<^verbatim>\<open>recoverCluster\<close> and \<^verbatim>\<open>updateCluster\<close> are outside the
  embedded files. Each receives the cluster object by pointer and returns an error; its
  outcome is the returned error and the lifecycle state it assigned to
  \<^verbatim>\<open>Status.ClusterState\<close>, if it assigned one.
\<close>

record outcome =
  returned :: "error option"
  assigned :: "string option"

text \<open>
  The outcomes of all calls that leave the embedded files during one tick. No call site
  is inside a loop, so one field per call site determines the tick. The snapshot builder
  (\<^verbatim>\<open>NewRedisClusterView\<close>), the evaluators and the helpers that load and store the
  cluster state view are taken by their return values.
\<close>

record env =
  o_Get :: "error + RedisCluster"
  o_getClusterStateView :: "error option"
  o_deleteAllRedisClusterPods :: "error option"
  o_createNewRedisCluster :: outcome
  o_initializeFollowers :: outcome
  o_NewRedisClusterView :: "error option"
  o_isClusterComplete :: "bool \<times> error option"
  o_isClusterUpToDate :: "bool \<times> error option"
  o_isScaleRequired :: "bool \<times> string"
  o_scaleCluster :: outcome
  o_recoverCluster :: outcome
  o_updateCluster :: outcome
  o_NewRedisClusterView_report :: "error option"
  o_updateClusterStateView :: "error option"
  o_createClusterStateView :: "error option"

text \<open>
  The state a tick works on: the cluster object fetched at its start
  (\<^verbatim>\<open>redisCluster\<close>), the reconciler's field \<^verbatim>\<open>r.State\<close>, and the events so far.
  The older version has one more process-wide variable, \<^verbatim>\<open>ClusterReset\<close>.
\<close>

record tick =
  cluster :: RedisCluster
  State :: RedisClusterState
  trace :: "event list"

record tick_old = tick +
  ClusterReset :: bool

definition emit :: "event \<Rightarrow> 'a tick_scheme \<Rightarrow> 'a tick_scheme" where
  "emit e t = t\<lparr>trace := trace t @ [e]\<rparr>"

definition setClusterState :: "string \<Rightarrow> 'a tick_scheme \<Rightarrow> 'a tick_scheme" where
  "setClusterState s t = t\<lparr>cluster := (cluster t)\<lparr>Status_ClusterState := s\<rparr>\<rparr>"

definition clusterState :: "'a tick_scheme \<Rightarrow> string" where
  "clusterState t = Status_ClusterState (cluster t)"

text \<open>A call of an engine: the call is recorded and the engine's assignment to the
  status field, if any, takes effect.\<close>

definition engine :: "event \<Rightarrow> outcome \<Rightarrow> 'a tick_scheme \<Rightarrow> 'a tick_scheme" where
  "engine e oc t =
     (case assigned oc of
        None \<Rightarrow> emit e t
      | Some s \<Rightarrow> setClusterState s (emit e t))"

section \<open>The reconciler of \<^verbatim>\<open>controllers/rediscluster_controller.go\<close>\<close>

subsection \<open>Writing the status\<close>

text \<open>\<^verbatim>\<open>updateClusterState\<close>: sends the status to the API server (the result of the
  update is discarded by the source) and logs the state.\<close>

definition updateClusterState :: "'a tick_scheme \<Rightarrow> 'a tick_scheme" where
  "updateClusterState t =
     (let t1 = emit (StatusUpdate (clusterState t)) t;
          clusterState' = clusterState t1
      in emit (LogInfo (''Updated state to: ['' @ clusterState' @ '']'')) t1)"

text \<open>\<^verbatim>\<open>updateClusterView\<close>: when the snapshot cannot be built it returns before
  anything is written; otherwise the snapshot and the state are mirrored and, deferred to
  the end, the status is written.\<close>

definition updateClusterView :: "env \<Rightarrow> 'a tick_scheme \<Rightarrow> 'a tick_scheme" where
  "updateClusterView \<omega> t =
     (let t1 = emit NewRedisClusterView t
      in case o_NewRedisClusterView_report \<omega> of
           Some err \<Rightarrow>
             emit (LogInfo ''[Warn] Could not get view for api view update, Error: %v'') t1
         | None \<Rightarrow>
             (let t2 = emit JsonMarshal t1;
                  t3 = emit SaveRedisClusterView t2;
                  t4 = emit (SaveRedisClusterState (clusterState t3)) t3
              in updateClusterState t4))"

subsection \<open>The state handlers\<close>

text \<open>Each handler returns the error it hands to \<^verbatim>\<open>Reconcile\<close> and the tick state it
  leaves. Deferred calls appear where they run: after the last statement, last registered
  first.\<close>

definition handleInitializingCluster :: "env \<Rightarrow> 'a tick_scheme \<Rightarrow> error option \<times> 'a tick_scheme" where
  "handleInitializingCluster \<omega> t =
     (let t1 = emit (Handler HInitializing) t;
          t2 = emit (LogInfo ''Clear all cluster pods...'') t1;
          t3 = emit DeleteAllRedisClusterPods t2
      in case o_deleteAllRedisClusterPods \<omega> of
           Some e \<Rightarrow> (Some e, t3)
         | None \<Rightarrow>
             (let t4 = emit (LogInfo ''Clear cluster state map...'') t3;
                  t5 = emit DeleteClusterStateView t4;
                  t6 = emit (CreateStateView (Spec_LeaderCount (cluster t5))
                                             (Spec_LeaderFollowersCount (cluster t5))) t5;
                  t7 = emit (LogInfo ''Handling initializing leaders...'') t6;
                  t8 = engine CreateNewRedisCluster (o_createNewRedisCluster \<omega>) t7
              in case returned (o_createNewRedisCluster \<omega>) of
                   Some err \<Rightarrow> (Some err, setClusterState Reset t8)
                 | None \<Rightarrow>
                     (let t9 = emit (LogInfo ''Handling initializing followers...'') t8;
                          t10 = engine InitializeFollowers (o_initializeFollowers \<omega>) t9
                      in case returned (o_initializeFollowers \<omega>) of
                           Some err \<Rightarrow> (Some err, setClusterState Reset t10)
                         | None \<Rightarrow>
                             (let t11 = setClusterState Ready t10;
                                  t12 = updateClusterState t11;
                                  t13 = emit CreateClusterStateView t12
                              in (None, t13)))))"

definition handleReadyState :: "env \<Rightarrow> 'a tick_scheme \<Rightarrow> error option \<times> 'a tick_scheme" where
  "handleReadyState \<omega> t =
     (let t1 = emit (Handler HReady) t;
          t2 = emit (LogInfo ''Handling ready state...'') t1;
          t3 = emit NewRedisClusterView t2
      in case o_NewRedisClusterView \<omega> of
           Some err \<Rightarrow> (Some err, t3)
         | None \<Rightarrow>
             (let t4 = emit IsClusterComplete t3;
                  (complete, err) = o_isClusterComplete \<omega>
              in case err of
                   Some e \<Rightarrow>
                     (Some e, emit (LogInfo ''Could not check if cluster is complete'') t4)
                 | None \<Rightarrow>
                     if \<not> complete then (None, setClusterState Recovering t4)
                     else
                       (let t5 = emit IsClusterUpToDate t4;
                            (uptodate, err) = o_isClusterUpToDate \<omega>
                        in case err of
                             Some e \<Rightarrow>
                               (Some e,
                                setClusterState Recovering
                                  (emit (LogInfo ''Could not check if cluster is updated'') t5))
                           | None \<Rightarrow>
                               if \<not> uptodate then (None, setClusterState Updating t5)
                               else
                                 (let t6 = emit (LogInfo ''Cluster is healthy'') t5;
                                      t7 = emit IsScaleRequired t6;
                                      (scale, scaleType) = o_isScaleRequired \<omega>;
                                      t8 = (if scale
                                            then setClusterState Scale
                                                   (emit (LogInfo (''Scale is required, scale type: [''
                                                                    @ scaleType @ '']'')) t7)
                                            else t7);
                                      t9 = emit UpdateClusterStateView t8;
                                      t10 = emit ForgetLostNodes t9
                                  in (None, t10)))))"

definition handleScaleState :: "env \<Rightarrow> 'a tick_scheme \<Rightarrow> error option \<times> 'a tick_scheme" where
  "handleScaleState \<omega> t =
     (let t1 = emit (Handler HScale) t;
          t2 = emit (LogInfo ''Handling cluster scale...'') t1;
          t3 = engine ScaleCluster (o_scaleCluster \<omega>) t2;
          t4 = (case returned (o_scaleCluster \<omega>) of
                  Some e \<Rightarrow> emit (LogError e ''Could not perform cluster scale'') t3
                | None \<Rightarrow> t3);
          t5 = setClusterState Ready t4;
          t6 = emit UpdateClusterStateView t5
      in (None, t6))"

definition handleRecoveringState :: "env \<Rightarrow> 'a tick_scheme \<Rightarrow> error option \<times> 'a tick_scheme" where
  "handleRecoveringState \<omega> t =
     (let t1 = emit (Handler HRecovering) t;
          t2 = emit (LogInfo ''Handling cluster recovery...'') t1;
          t3 = engine RecoverCluster (o_recoverCluster \<omega>) t2
      in case returned (o_recoverCluster \<omega>) of
           Some e \<Rightarrow> (Some e, t3)
         | None \<Rightarrow> (None, emit UpdateClusterStateView t3))"

definition handleUpdatingState :: "env \<Rightarrow> 'a tick_scheme \<Rightarrow> error option \<times> 'a tick_scheme" where
  "handleUpdatingState \<omega> t =
     (let t1 = emit (Handler HUpdating) t;
          t2 = emit (LogInfo ''Handling rolling update...'') t1;
          t3 = engine UpdateCluster (o_updateCluster \<omega>) t2;
          err = returned (o_updateCluster \<omega>);
          t4 = (case err of
                  Some e \<Rightarrow> emit (LogInfo ''Rolling update failed'') t3
                | None \<Rightarrow> t3);
          t5 = setClusterState Recovering t4;
          t6 = emit UpdateClusterStateView t5
      in (err, t6))"

subsection \<open>One tick\<close>

text \<open>The \<^verbatim>\<open>switch r.State\<close> of \<^verbatim>\<open>Reconcile\<close>; \<open>err\<close> is the value the variable
  \<^verbatim>\<open>err\<close> holds when the switch is reached. A state that is none of the six constants
  matches no case.\<close>

definition Reconcile_switch :: "env \<Rightarrow> error option \<Rightarrow> 'a tick_scheme \<Rightarrow> error option \<times> 'a tick_scheme" where
  "Reconcile_switch \<omega> err t =
     (if State t = NotExists then handleInitializingCluster \<omega> t
      else if State t = Reset then handleInitializingCluster \<omega> t
      else if State t = Ready then handleReadyState \<omega> t
      else if State t = Recovering then handleRecoveringState \<omega> t
      else if State t = Updating then handleUpdatingState \<omega> t
      else if State t = Scale then handleScaleState \<omega> t
      else (err, t))"

text \<open>What follows the switch: the handler's error is logged, the result is built, and
  the two deferred calls run, \<^verbatim>\<open>updateClusterView\<close> first.\<close>

definition Reconcile_finish :: "env \<Rightarrow> error option \<Rightarrow> 'a tick_scheme \<Rightarrow> (Result \<times> error option) \<times> 'a tick_scheme" where
  "Reconcile_finish \<omega> err t =
     (let t1 = (case err of
                  Some e \<Rightarrow> emit (LogError e ''Handling error'') t
                | None \<Rightarrow> t);
          res = \<lparr>Requeue = (err = None), RequeueAfter = 15 * Second\<rparr>;
          t2 = updateClusterView \<omega> t1;
          t3 = emit UpdateClusterStateView t2
      in ((res, None), t3))"

definition Reconcile :: "env \<Rightarrow> 'a tick_scheme \<Rightarrow> (Result \<times> error option) \<times> 'a tick_scheme" where
  "Reconcile \<omega> t =
     (let t1 = emit (Println ''Reconcile call'') t;
          t2 = emit GetCluster t1
      in case o_Get \<omega> of
           Inl err \<Rightarrow>
             ((\<lparr>Requeue = False, RequeueAfter = 15 * Second\<rparr>, IgnoreNotFound (Some err)),
              emit (LogInfo ''Unable to fetch RedisCluster resource'') t2)
         | Inr redisCluster \<Rightarrow>
             (let t3 = t2\<lparr>cluster := redisCluster, State := Status_ClusterState redisCluster\<rparr>;
                  t4 = (if length (Status_ClusterState redisCluster) = 0
                        then t3\<lparr>State := NotExists\<rparr> else t3);
                  t5 = emit GetClusterStateView t4;
                  err = o_getClusterStateView \<omega>
              in if State t5 = NotExists \<or> State t5 = Reset then
                   (let t6 = emit (CreateStateView (Spec_LeaderCount redisCluster)
                                                   (Spec_LeaderFollowersCount redisCluster)) t5;
                        (err', t7) = Reconcile_switch \<omega> err t6
                    in Reconcile_finish \<omega> err' t7)
                 else
                   (case err of
                      Some e \<Rightarrow>
                        ((\<lparr>Requeue = False, RequeueAfter = 20 * Second\<rparr>, None),
                         emit (LogError e ''Could not perform reconcile loop'') t5)
                    | None \<Rightarrow>
                        (let (err', t7) = Reconcile_switch \<omega> err t5
                         in Reconcile_finish \<omega> err' t7))))"

section \<open>The older reconciler\<close>

text \<open>The older \<^verbatim>\<open>updateClusterView\<close> stores the cluster state view itself and does not
  write the status.\<close>

definition updateClusterView_old :: "env \<Rightarrow> 'a tick_scheme \<Rightarrow> 'a tick_scheme" where
  "updateClusterView_old \<omega> t =
     (let t1 = emit NewRedisClusterView t
      in case o_NewRedisClusterView_report \<omega> of
           Some err \<Rightarrow>
             emit (LogInfo ''[Warn] Could not get view for api view update, Error: %v'') t1
         | None \<Rightarrow>
             (let t2 = emit JsonMarshal t1;
                  t3 = emit SaveRedisClusterView t2;
                  t4 = emit (SaveRedisClusterState (clusterState t3)) t3;
                  t5 = emit UpdateClusterStateView t4
              in case o_updateClusterStateView \<omega> of
                   None \<Rightarrow> t5
                 | Some err \<Rightarrow>
                     (let t6 = emit CreateClusterStateView t5
                      in case o_createClusterStateView \<omega> of
                           None \<Rightarrow> t6
                         | Some err \<Rightarrow>
                             emit (LogError err ''Could not update cluster state view'') t6)))"

definition handleInitializingCluster_old :: "env \<Rightarrow> tick_old \<Rightarrow> error option \<times> tick_old" where
  "handleInitializingCluster_old \<omega> t =
     (let t0 = emit (Handler HInitializing) t;
          t1 = updateClusterState t0;
          t2 = emit (LogInfo ''Clear all cluster pods...'') t1;
          t3 = emit DeleteAllRedisClusterPods t2
      in case o_deleteAllRedisClusterPods \<omega> of
           Some e \<Rightarrow> (Some e, t3)
         | None \<Rightarrow>
             (let t4 = emit (LogInfo ''Clear cluster state map...'') t3;
                  t5 = emit DeleteClusterStateView t4;
                  t6 = emit (CreateStateView (Spec_LeaderCount (cluster t5))
                                             (Spec_LeaderFollowersCount (cluster t5))) t5;
                  t7 = emit (LogInfo ''Handling initializing leaders...'') t6;
                  t8 = engine CreateNewRedisCluster (o_createNewRedisCluster \<omega>) t7
              in case returned (o_createNewRedisCluster \<omega>) of
                   Some err \<Rightarrow> (Some err, (setClusterState Reset t8)\<lparr>ClusterReset := True\<rparr>)
                 | None \<Rightarrow>
                     (let t9 = emit (LogInfo ''Handling initializing followers...'') t8;
                          t10 = engine InitializeFollowers (o_initializeFollowers \<omega>) t9
                      in case returned (o_initializeFollowers \<omega>) of
                           Some err \<Rightarrow>
                             (Some err, (setClusterState Reset t10)\<lparr>ClusterReset := True\<rparr>)
                         | None \<Rightarrow>
                             (let t11 = setClusterState Ready t10;
                                  t12 = updateClusterState t11
                              in (None, t12)))))"

definition handleReadyState_old :: "env \<Rightarrow> 'a tick_scheme \<Rightarrow> error option \<times> 'a tick_scheme" where
  "handleReadyState_old \<omega> t =
     (let t1 = emit (Handler HReady) t;
          t4 = emit IsClusterComplete t1;
          (complete, err) = o_isClusterComplete \<omega>
      in case err of
           Some e \<Rightarrow>
             (Some e, emit (LogInfo ''Could not check if cluster is complete'') t4)
         | None \<Rightarrow>
             if \<not> complete then (None, setClusterState Recovering t4)
             else
               (let t5 = emit IsClusterUpToDate t4;
                    (uptodate, err) = o_isClusterUpToDate \<omega>
                in case err of
                     Some e \<Rightarrow>
                       (Some e,
                        setClusterState Recovering
                          (emit (LogInfo ''Could not check if cluster is updated'') t5))
                   | None \<Rightarrow>
                       if \<not> uptodate then (None, setClusterState Updating t5)
                       else
                         (let t6 = emit (LogInfo ''Cluster is healthy'') t5;
                              t7 = emit IsScaleRequired t6;
                              (scale, scaleType) = o_isScaleRequired \<omega>;
                              t8 = (if scale
                                    then setClusterState Scale
                                           (emit (LogInfo (''Scale is required, scale type: [''
                                                            @ scaleType @ '']'')) t7)
                                    else t7);
                              t9 = emit ForgetLostNodes t8
                          in (None, t9))))"

definition handleScaleState_old :: "env \<Rightarrow> 'a tick_scheme \<Rightarrow> error option \<times> 'a tick_scheme" where
  "handleScaleState_old \<omega> t =
     (let t1 = emit (Handler HScale) t;
          t3 = engine ScaleCluster (o_scaleCluster \<omega>) t1;
          t4 = (case returned (o_scaleCluster \<omega>) of
                  Some e \<Rightarrow> emit (LogError e ''Could not perform cluster scale'') t3
                | None \<Rightarrow> t3);
          t5 = setClusterState Ready t4;
          t6 = emit ForgetLostNodes t5
      in (None, t6))"

definition handleRecoveringState_old :: "env \<Rightarrow> 'a tick_scheme \<Rightarrow> error option \<times> 'a tick_scheme" where
  "handleRecoveringState_old \<omega> t =
     (let t1 = emit (Handler HRecovering) t;
          t2 = emit (LogInfo ''Handling cluster recovery...'') t1;
          t3 = engine RecoverCluster (o_recoverCluster \<omega>) t2
      in case returned (o_recoverCluster \<omega>) of
           Some e \<Rightarrow> (Some e, t3)
         | None \<Rightarrow>
             (let t4 = setClusterState Ready t3
              in (None, emit ForgetLostNodes t4)))"

definition handleUpdatingState_old :: "env \<Rightarrow> 'a tick_scheme \<Rightarrow> error option \<times> 'a tick_scheme" where
  "handleUpdatingState_old \<omega> t =
     (let t1 = emit (Handler HUpdating) t;
          t2 = emit (LogInfo ''Handling rolling update...'') t1;
          t3 = engine UpdateCluster (o_updateCluster \<omega>) t2;
          err = returned (o_updateCluster \<omega>);
          t4 = (case err of
                  Some e \<Rightarrow> emit (LogInfo ''Rolling update failed'') t3
                | None \<Rightarrow> t3);
          t5 = setClusterState Recovering t4
      in (err, t5))"

text \<open>The older \<^verbatim>\<open>switch r.State\<close>: the handlers of \<^verbatim>\<open>Ready\<close>,
  \<^verbatim>\<open>Recovering\<close>, \<^verbatim>\<open>Updating\<close> and \<^verbatim>\<open>Scale\<close> run only while
  \<^verbatim>\<open>ClusterReset\<close> is false, and the \<^verbatim>\<open>Reset\<close> case clears the flag after its
  handler.\<close>

definition Reconcile_switch_old :: "env \<Rightarrow> error option \<Rightarrow> tick_old \<Rightarrow> error option \<times> tick_old" where
  "Reconcile_switch_old \<omega> err t =
     (if State t = NotExists then handleInitializingCluster_old \<omega> t
      else if State t = Reset then
        (let (err', t') = handleInitializingCluster_old \<omega> t
         in (err', t'\<lparr>ClusterReset := False\<rparr>))
      else if State t = Ready then
        (if \<not> ClusterReset t then handleReadyState_old \<omega> t else (err, t))
      else if State t = Recovering then
        (if \<not> ClusterReset t then handleRecoveringState_old \<omega> t else (err, t))
      else if State t = Updating then
        (if \<not> ClusterReset t then handleUpdatingState_old \<omega> t else (err, t))
      else if State t = Scale then
        (if \<not> ClusterReset t then handleScaleState_old \<omega> t else (err, t))
      else (err, t))"

text \<open>After the older switch the deferred calls run \<^verbatim>\<open>updateClusterState\<close> first, then
  \<^verbatim>\<open>updateClusterView\<close>.\<close>

definition Reconcile_finish_old :: "env \<Rightarrow> error option \<Rightarrow> tick_old \<Rightarrow> (Result \<times> error option) \<times> tick_old" where
  "Reconcile_finish_old \<omega> err t =
     (let t1 = (case err of
                  Some e \<Rightarrow> emit (LogError e ''Handling error'') t
                | None \<Rightarrow> t);
          res = \<lparr>Requeue = False, RequeueAfter = 15 * Second\<rparr>;
          t2 = updateClusterState t1;
          t3 = updateClusterView_old \<omega> t2
      in ((res, None), t3))"

definition Reconcile_old :: "env \<Rightarrow> tick_old \<Rightarrow> (Result \<times> error option) \<times> tick_old" where
  "Reconcile_old \<omega> t =
     (let t1 = emit (Println ''Reconcile call'') t;
          t2 = emit GetCluster t1
      in case o_Get \<omega> of
           Inl err \<Rightarrow>
             ((Result_zero, IgnoreNotFound (Some err)),
              emit (LogInfo ''Unable to fetch RedisCluster resource'') t2)
         | Inr redisCluster \<Rightarrow>
             (let t3 = t2\<lparr>cluster := redisCluster, State := Status_ClusterState redisCluster\<rparr>;
                  t4 = (if length (Status_ClusterState redisCluster) = 0
                        then t3\<lparr>State := NotExists\<rparr> else t3);
                  t5 = emit GetClusterStateView t4;
                  err = o_getClusterStateView \<omega>
              in if State t5 = NotExists then
                   (let t6 = emit (CreateStateView (Spec_LeaderCount redisCluster)
                                                   (Spec_LeaderFollowersCount redisCluster)) t5;
                        (err', t7) = Reconcile_switch_old \<omega> err t6
                    in Reconcile_finish_old \<omega> err' t7)
                 else
                   (case err of
                      Some e \<Rightarrow>
                        ((\<lparr>Requeue = False, RequeueAfter = 20 * Second\<rparr>, None),
                         emit (LogError e ''Could not perform reconcile loop'') t5)
                    | None \<Rightarrow>
                        (let (err', t7) = Reconcile_switch_old \<omega> err t5
                         in Reconcile_finish_old \<omega> err' t7))))"

subsection \<open>The diagnostic operation of the older version\<close>

text \<open>
  \<^verbatim>\<open>PrintClusterStateView\<close> works on the cluster object of the last tick. Its first
  statement regenerates the cluster state view from the declaration; it then marks node
  \<^verbatim>\<open>redis-node-0-1\<close> in the new view (a \<^verbatim>\<open>nil\<close> dereference, a panic, when the view
  has no such node), stores the view and reads it back. The outcomes it depends on are its
  own parameters.
\<close>

record print_env =
  p_nodePresent :: bool
  p_marshal_first :: "error option"
  p_updateClusterStateView :: "error option"
  p_createClusterStateView :: "error option"
  p_marshal_second :: "error option"

datatype response = Panicked | Responded int string

definition PrintClusterStateView_old :: "print_env \<Rightarrow> 'a tick_scheme \<Rightarrow> response \<times> 'a tick_scheme" where
  "PrintClusterStateView_old \<pi> t =
     (let t1 = emit (CreateStateView (Spec_LeaderCount (cluster t))
                                     (Spec_LeaderFollowersCount (cluster t))) t;
          t2 = emit (SetViewClusterState ''ClusterOK'') t1
      in if \<not> p_nodePresent \<pi> then (Panicked, t2)
         else
           (let t3 = emit (SetNodeState ''redis-node-0-1'' ''NodeOK'') t2;
                t4 = emit Printf t3;
                t5 = emit JsonMarshal t4;
                t6 = (case p_marshal_first \<pi> of
                        Some err \<Rightarrow> emit Printf t5
                      | None \<Rightarrow>
                          (let t5a = emit Printf t5;
                               t5b = emit UpdateClusterStateView t5a
                           in case p_updateClusterStateView \<pi> of
                                None \<Rightarrow> t5b
                              | Some e \<Rightarrow>
                                  (let t5c = emit Printf t5b;
                                       t5d = emit CreateClusterStateView t5c
                                   in case p_createClusterStateView \<pi> of
                                        None \<Rightarrow> t5d
                                      | Some e \<Rightarrow> emit Printf t5d)));
                t7 = emit GetClusterStateView t6;
                t8 = emit Printf t7;
                t9 = emit JsonMarshal t8;
                t10 = (case p_marshal_second \<pi> of
                         Some err \<Rightarrow> emit Printf t9
                       | None \<Rightarrow> emit Printf t9)
            in (Responded 200 ''Cluster state view printed to screen'', t10)))"

section \<open>Observations on a trace\<close>

text \<open>The handlers entered, the states sent to the API server, and whether the cluster
  state view was regenerated, read off a list of events.\<close>

fun handlers_of :: "event list \<Rightarrow> handler list" where
  "handlers_of [] = []"
| "handlers_of (Handler h # es) = h # handlers_of es"
| "handlers_of (e # es) = handlers_of es"

fun status_updates :: "event list \<Rightarrow> string list" where
  "status_updates [] = []"
| "status_updates (StatusUpdate s # es) = s # status_updates es"
| "status_updates (e # es) = status_updates es"

fun is_CreateStateView :: "event \<Rightarrow> bool" where
  "is_CreateStateView (CreateStateView l f) = True"
| "is_CreateStateView e = False"

definition regenerates :: "event list \<Rightarrow> bool" where
  "regenerates es = list_ex is_CreateStateView es"

text \<open>The calls of the three evaluators of the Ready handler, in the order made.\<close>

fun evaluations :: "event list \<Rightarrow> event list" where
  "evaluations [] = []"
| "evaluations (IsClusterComplete # es) = IsClusterComplete # evaluations es"
| "evaluations (IsClusterUpToDate # es) = IsClusterUpToDate # evaluations es"
| "evaluations (IsScaleRequired # es) = IsScaleRequired # evaluations es"
| "evaluations (e # es) = evaluations es"

text \<open>The lifecycle state a tick starts from: the status field, an empty one read as
  \<^verbatim>\<open>NotExists\<close> (the first statements of \<^verbatim>\<open>Reconcile\<close> after the fetch, and of
  \<^verbatim>\<open>validateStateUpdated\<close>).\<close>

definition tickState :: "string \<Rightarrow> RedisClusterState" where
  "tickState s = (if length s = 0 then NotExists else s)"

section \<open>Concrete inputs\<close>

text \<open>A declaration of three leaders with one follower each, an environment in which
  every call succeeds, finds the cluster complete and up to date and asks for no scaling,
  and ticks that start from it. The theorems below are evaluated on variations of these.\<close>

definition err0 :: error where
  "err0 = Error StatusReasonOther ''connection refused''"

definition err_not_found :: error where
  "err_not_found = Error StatusReasonNotFound ''rediscluster not found''"

definition succeeded :: outcome where
  "succeeded = \<lparr>returned = None, assigned = None\<rparr>"

definition failed :: "error \<Rightarrow> outcome" where
  "failed e = \<lparr>returned = Some e, assigned = None\<rparr>"

definition cluster0 :: "string \<Rightarrow> RedisCluster" where
  "cluster0 s = \<lparr>Spec_LeaderCount = 3, Spec_LeaderFollowersCount = 1, Status_ClusterState = s\<rparr>"

definition env0 :: "string \<Rightarrow> env" where
  "env0 s =
     \<lparr>o_Get = Inr (cluster0 s),
      o_getClusterStateView = None,
      o_deleteAllRedisClusterPods = None,
      o_createNewRedisCluster = succeeded,
      o_initializeFollowers = succeeded,
      o_NewRedisClusterView = None,
      o_isClusterComplete = (True, None),
      o_isClusterUpToDate = (True, None),
      o_isScaleRequired = (False, ''None''),
      o_scaleCluster = succeeded,
      o_recoverCluster = succeeded,
      o_updateCluster = succeeded,
      o_NewRedisClusterView_report = None,
      o_updateClusterStateView = None,
      o_createClusterStateView = None\<rparr>"

definition tick0 :: "string \<Rightarrow> tick" where
  "tick0 s = \<lparr>cluster = cluster0 s, State = s, trace = []\<rparr>"

definition tick0_old :: "string \<Rightarrow> bool \<Rightarrow> tick_old" where
  "tick0_old s b = \<lparr>cluster = cluster0 s, State = s, trace = [], ClusterReset = b\<rparr>"

definition print0 :: print_env where
  "print0 = \<lparr>p_nodePresent = True, p_marshal_first = None, p_updateClusterStateView = None,
             p_createClusterStateView = None, p_marshal_second = None\<rparr>"

section \<open>Basic facts\<close>

lemmas state_defs =
  NotExists_def Reset_def Ready_def Recovering_def Updating_def Scale_def

lemmas input_defs =
  err0_def err_not_found_def succeeded_def failed_def cluster0_def env0_def tick0_def
  tick0_old_def print0_def

lemma trace_emit [simp]: "trace (emit e t) = trace t @ [e]"
  by (simp add: emit_def)

lemma cluster_emit [simp]: "cluster (emit e t) = cluster t"
  by (simp add: emit_def)

lemma State_emit [simp]: "State (emit e t) = State t"
  by (simp add: emit_def)

lemma ClusterReset_emit [simp]: "ClusterReset (emit e t) = ClusterReset t"
  by (simp add: emit_def)

lemma clusterState_emit [simp]: "clusterState (emit e t) = clusterState t"
  by (simp add: clusterState_def)

lemma trace_setClusterState [simp]: "trace (setClusterState s t) = trace t"
  by (simp add: setClusterState_def)

lemma State_setClusterState [simp]: "State (setClusterState s t) = State t"
  by (simp add: setClusterState_def)

lemma ClusterReset_setClusterState [simp]:
  "ClusterReset (setClusterState s t) = ClusterReset t"
  by (simp add: setClusterState_def)

lemma clusterState_setClusterState [simp]: "clusterState (setClusterState s t) = s"
  by (simp add: setClusterState_def clusterState_def)

lemma clusterState_ClusterReset_update [simp]:
  "clusterState (t\<lparr>ClusterReset := b\<rparr>) = clusterState t"
  by (simp add: clusterState_def)

lemma trace_engine [simp]: "trace (engine e oc t) = trace t @ [e]"
  by (simp add: engine_def split: option.splits)

lemma State_engine [simp]: "State (engine e oc t) = State t"
  by (simp add: engine_def split: option.splits)

lemma ClusterReset_engine [simp]: "ClusterReset (engine e oc t) = ClusterReset t"
  by (simp add: engine_def split: option.splits)

lemma clusterState_engine [simp]:
  "clusterState (engine e oc t) = (case assigned oc of None \<Rightarrow> clusterState t | Some s \<Rightarrow> s)"
  by (simp add: engine_def split: option.splits)

lemma cluster_setClusterState [simp]:
  "cluster (setClusterState s t) = (cluster t)\<lparr>Status_ClusterState := s\<rparr>"
  by (simp add: setClusterState_def)

lemma cluster_engine [simp]:
  "cluster (engine e oc t) =
     (case assigned oc of None \<Rightarrow> cluster t
      | Some s \<Rightarrow> (cluster t)\<lparr>Status_ClusterState := s\<rparr>)"
  by (simp add: engine_def split: option.splits)

lemma cluster_updateClusterState [simp]: "cluster (updateClusterState t) = cluster t"
  by (simp add: updateClusterState_def Let_def)

lemma clusterState_updateClusterState [simp]:
  "clusterState (updateClusterState t) = clusterState t"
  by (simp add: updateClusterState_def Let_def)

lemma State_updateClusterState [simp]: "State (updateClusterState t) = State t"
  by (simp add: updateClusterState_def Let_def)

lemma trace_updateClusterState [simp]:
  "trace (updateClusterState t) =
     trace t @ [StatusUpdate (clusterState t),
                LogInfo (''Updated state to: ['' @ clusterState t @ '']'')]"
  by (simp add: updateClusterState_def Let_def)

lemma handlers_of_append [simp]: "handlers_of (xs @ ys) = handlers_of xs @ handlers_of ys"
  by (induction xs rule: handlers_of.induct) simp_all

lemma status_updates_append [simp]:
  "status_updates (xs @ ys) = status_updates xs @ status_updates ys"
  by (induction xs rule: status_updates.induct) simp_all

lemma evaluations_append [simp]: "evaluations (xs @ ys) = evaluations xs @ evaluations ys"
  by (induction xs rule: evaluations.induct) simp_all

lemma regenerates_append [simp]: "regenerates (xs @ ys) = (regenerates xs \<or> regenerates ys)"
  by (simp add: regenerates_def)

lemma regenerates_Nil [simp]: "regenerates [] = False"
  by (simp add: regenerates_def)

lemma regenerates_Cons [simp]:
  "regenerates (e # es) = (is_CreateStateView e \<or> regenerates es)"
  by (simp add: regenerates_def)

section \<open>The state handlers\<close>

text \<open>
  C1. In the Ready handler completeness is evaluated before up-to-dateness, and that before
  the need to scale. When the evaluations succeed (in the newer version the snapshot is
  built first, and must have been built), the handler returns no error and leaves the
  lifecycle state Recovering when the cluster is incomplete, Updating when it is complete
  but not up to date, Scale when it is complete and up to date and a scale is required,
  and otherwise the state it found, which is Ready when the tick dispatched on Ready. An
  incomplete cluster is never asked whether it is up to date, and a stale one never
  whether it needs scaling. Both versions.
\<close>

theorem ready_handler_priority:
  assumes "o_NewRedisClusterView \<omega> = None"
    and "snd (o_isClusterComplete \<omega>) = None"
    and "fst (o_isClusterComplete \<omega>) \<Longrightarrow> snd (o_isClusterUpToDate \<omega>) = None"
  shows "clusterState (snd (handleReadyState \<omega> t)) =
           (if \<not> fst (o_isClusterComplete \<omega>) then Recovering
            else if \<not> fst (o_isClusterUpToDate \<omega>) then Updating
            else if fst (o_isScaleRequired \<omega>) then Scale
            else clusterState t)
       \<and> evaluations (trace (snd (handleReadyState \<omega> t))) = evaluations (trace t) @
           (if \<not> fst (o_isClusterComplete \<omega>) then [IsClusterComplete]
            else if \<not> fst (o_isClusterUpToDate \<omega>) then [IsClusterComplete, IsClusterUpToDate]
            else [IsClusterComplete, IsClusterUpToDate, IsScaleRequired])
       \<and> fst (handleReadyState \<omega> t) = None
       \<and> clusterState (snd (handleReadyState_old \<omega> t')) =
           (if \<not> fst (o_isClusterComplete \<omega>) then Recovering
            else if \<not> fst (o_isClusterUpToDate \<omega>) then Updating
            else if fst (o_isScaleRequired \<omega>) then Scale
            else clusterState t')
       \<and> evaluations (trace (snd (handleReadyState_old \<omega> t'))) = evaluations (trace t') @
           (if \<not> fst (o_isClusterComplete \<omega>) then [IsClusterComplete]
            else if \<not> fst (o_isClusterUpToDate \<omega>) then [IsClusterComplete, IsClusterUpToDate]
            else [IsClusterComplete, IsClusterUpToDate, IsScaleRequired])
       \<and> fst (handleReadyState_old \<omega> t') = None"
  using assms
  by (cases "o_isClusterComplete \<omega>"; cases "o_isClusterUpToDate \<omega>";
      cases "o_isScaleRequired \<omega>")
     (simp add: handleReadyState_def handleReadyState_old_def Let_def)

text \<open>A complete but stale cluster for which a scale is required too: the state becomes
  Updating, and the need to scale is not evaluated.\<close>

theorem ready_handler_priority_witness:
  "o_NewRedisClusterView
      ((env0 Ready)\<lparr>o_isClusterUpToDate := (False, None), o_isScaleRequired := (True, ''ScaleUp'')\<rparr>) = None
   \<and> snd (o_isClusterComplete
      ((env0 Ready)\<lparr>o_isClusterUpToDate := (False, None), o_isScaleRequired := (True, ''ScaleUp'')\<rparr>)) = None
   \<and> snd (o_isClusterUpToDate
      ((env0 Ready)\<lparr>o_isClusterUpToDate := (False, None), o_isScaleRequired := (True, ''ScaleUp'')\<rparr>)) = None
   \<and> clusterState (snd (handleReadyState
        ((env0 Ready)\<lparr>o_isClusterUpToDate := (False, None), o_isScaleRequired := (True, ''ScaleUp'')\<rparr>)
        (tick0 Ready))) = Updating
   \<and> evaluations (trace (snd (handleReadyState
        ((env0 Ready)\<lparr>o_isClusterUpToDate := (False, None), o_isScaleRequired := (True, ''ScaleUp'')\<rparr>)
        (tick0 Ready)))) = [IsClusterComplete, IsClusterUpToDate]
   \<and> clusterState (snd (handleReadyState_old
        ((env0 Ready)\<lparr>o_isClusterUpToDate := (False, None), o_isScaleRequired := (True, ''ScaleUp'')\<rparr>)
        (tick0_old Ready False))) = Updating"
proof -
  let ?\<omega> = "(env0 Ready)\<lparr>o_isClusterUpToDate := (False, None),
                           o_isScaleRequired := (True, ''ScaleUp'')\<rparr>"
  have h1: "o_NewRedisClusterView ?\<omega> = None" by (simp add: env0_def)
  have h2: "snd (o_isClusterComplete ?\<omega>) = None" by (simp add: env0_def)
  have h3: "snd (o_isClusterUpToDate ?\<omega>) = None" by (simp add: env0_def)
  have c: "fst (o_isClusterComplete ?\<omega>)" "\<not> fst (o_isClusterUpToDate ?\<omega>)"
    by (simp_all add: env0_def)
  have e: "evaluations (trace (tick0 Ready)) = []" by (simp add: tick0_def)
  from ready_handler_priority [of ?\<omega> "tick0 Ready" "tick0_old Ready False", OF h1 h2 h3]
  show ?thesis using h1 h2 h3 c e by simp
qed

text \<open>
  C3. The Updating handler leaves the lifecycle state Recovering whether the rolling
  update succeeded or failed, and hands the update's error, if any, to the caller. Both
  versions.
\<close>

theorem updating_handler_always_recovering:
  "clusterState (snd (handleUpdatingState \<omega> t)) = Recovering
   \<and> fst (handleUpdatingState \<omega> t) = returned (o_updateCluster \<omega>)
   \<and> clusterState (snd (handleUpdatingState_old \<omega> t')) = Recovering
   \<and> fst (handleUpdatingState_old \<omega> t') = returned (o_updateCluster \<omega>)"
  by (simp add: handleUpdatingState_def handleUpdatingState_old_def Let_def)

theorem updating_handler_always_recovering_witness:
  "clusterState (snd (handleUpdatingState ((env0 Updating)\<lparr>o_updateCluster := failed err0\<rparr>)
                        (tick0 Updating))) = Recovering
   \<and> clusterState (snd (handleUpdatingState (env0 Updating) (tick0 Updating))) = Recovering
   \<and> clusterState (snd (handleUpdatingState_old ((env0 Updating)\<lparr>o_updateCluster := failed err0\<rparr>)
                        (tick0_old Updating False))) = Recovering"
  using updating_handler_always_recovering
          [of "(env0 Updating)\<lparr>o_updateCluster := failed err0\<rparr>" "tick0 Updating"
              "tick0_old Updating False"]
        updating_handler_always_recovering
          [of "env0 Updating" "tick0 Updating" "tick0_old Updating False"]
  by simp

text \<open>
  C4. The Scale handler leaves the lifecycle state Ready and returns no error whether the
  scale operation succeeded or failed; the failure is logged (one
  \<open>LogError\<close> event carrying the scale error) and nothing else is done with it. Both
  versions.
\<close>

theorem scale_handler_always_ready:
  "clusterState (snd (handleScaleState \<omega> t)) = Ready
   \<and> fst (handleScaleState \<omega> t) = None
   \<and> trace (snd (handleScaleState \<omega> t)) =
       trace t @ [Handler HScale, LogInfo ''Handling cluster scale...'', ScaleCluster]
         @ (case returned (o_scaleCluster \<omega>) of
              Some e \<Rightarrow> [LogError e ''Could not perform cluster scale'']
            | None \<Rightarrow> [])
         @ [UpdateClusterStateView]
   \<and> clusterState (snd (handleScaleState_old \<omega> t')) = Ready
   \<and> fst (handleScaleState_old \<omega> t') = None
   \<and> trace (snd (handleScaleState_old \<omega> t')) =
       trace t' @ [Handler HScale, ScaleCluster]
         @ (case returned (o_scaleCluster \<omega>) of
              Some e \<Rightarrow> [LogError e ''Could not perform cluster scale'']
            | None \<Rightarrow> [])
         @ [ForgetLostNodes]"
  by (simp add: handleScaleState_def handleScaleState_old_def Let_def split: option.splits)

theorem scale_handler_always_ready_witness:
  "clusterState (snd (handleScaleState ((env0 Scale)\<lparr>o_scaleCluster := failed err0\<rparr>)
                        (tick0 Scale))) = Ready
   \<and> fst (handleScaleState ((env0 Scale)\<lparr>o_scaleCluster := failed err0\<rparr>) (tick0 Scale)) = None
   \<and> trace (snd (handleScaleState ((env0 Scale)\<lparr>o_scaleCluster := failed err0\<rparr>) (tick0 Scale))) =
       [Handler HScale, LogInfo ''Handling cluster scale...'', ScaleCluster,
        LogError err0 ''Could not perform cluster scale'', UpdateClusterStateView]"
  using scale_handler_always_ready
          [of "(env0 Scale)\<lparr>o_scaleCluster := failed err0\<rparr>" "tick0 Scale" "tick0_old Scale False"]
  by (simp add: failed_def tick0_def)

text \<open>
  C2 as stated does not hold of the newer Recovering handler: it never assigns the
  lifecycle state. With a recovery routine that returns no error and assigns nothing, the
  state after the handler, and the state the tick then writes to the API server, is
  still Recovering.
\<close>

theorem recovering_handler_counterexample:
  "returned (o_recoverCluster (env0 Recovering)) = None
   \<and> fst (handleRecoveringState (env0 Recovering) (tick0 Recovering)) = None
   \<and> clusterState (snd (handleRecoveringState (env0 Recovering) (tick0 Recovering))) = Recovering
   \<and> status_updates (trace (snd (Reconcile (env0 Recovering) (tick0 Recovering)))) = [Recovering]
   \<and> Recovering \<noteq> Ready"
  by (simp add: Reconcile_def Reconcile_switch_def Reconcile_finish_def updateClusterView_def
        handleRecoveringState_def Let_def clusterState_def input_defs state_defs)

text \<open>
  C2, amended. The older Recovering handler leaves the lifecycle state Ready when the
  recovery routine returns no error; when the routine fails it returns the routine's error
  and leaves the state as the routine left it, that is Recovering unless the routine
  assigned another state. The newer handler returns the routine's error and never assigns
  the state itself: after success and after failure alike the state is the one the
  routine left, so it is Ready after a success only when the routine assigned Ready.
\<close>

theorem recovering_handler_outcome:
  "clusterState (snd (handleRecoveringState \<omega> t)) =
     (case assigned (o_recoverCluster \<omega>) of None \<Rightarrow> clusterState t | Some s \<Rightarrow> s)
   \<and> fst (handleRecoveringState \<omega> t) = returned (o_recoverCluster \<omega>)
   \<and> clusterState (snd (handleRecoveringState_old \<omega> t')) =
     (if returned (o_recoverCluster \<omega>) = None then Ready
      else case assigned (o_recoverCluster \<omega>) of None \<Rightarrow> clusterState t' | Some s \<Rightarrow> s)
   \<and> fst (handleRecoveringState_old \<omega> t') = returned (o_recoverCluster \<omega>)"
  by (simp add: handleRecoveringState_def handleRecoveringState_old_def Let_def
           split: option.splits)

text \<open>In the older version a success gives Ready and a failure leaves Recovering; in the
  newer one a routine that assigns Ready gives Ready.\<close>

theorem recovering_handler_outcome_witness:
  "clusterState (snd (handleRecoveringState_old (env0 Recovering) (tick0_old Recovering False))) = Ready
   \<and> clusterState (snd (handleRecoveringState_old
        ((env0 Recovering)\<lparr>o_recoverCluster := failed err0\<rparr>) (tick0_old Recovering False))) = Recovering
   \<and> fst (handleRecoveringState_old
        ((env0 Recovering)\<lparr>o_recoverCluster := failed err0\<rparr>) (tick0_old Recovering False)) = Some err0
   \<and> clusterState (snd (handleRecoveringState
        ((env0 Recovering)\<lparr>o_recoverCluster := \<lparr>returned = None, assigned = Some Ready\<rparr>\<rparr>)
        (tick0 Recovering))) = Ready"
  using recovering_handler_outcome
          [of "env0 Recovering" "tick0 Recovering" "tick0_old Recovering False"]
        recovering_handler_outcome
          [of "(env0 Recovering)\<lparr>o_recoverCluster := failed err0\<rparr>" "tick0 Recovering"
              "tick0_old Recovering False"]
        recovering_handler_outcome
          [of "(env0 Recovering)\<lparr>o_recoverCluster := \<lparr>returned = None, assigned = Some Ready\<rparr>\<rparr>"
              "tick0 Recovering" "tick0_old Recovering False"]
  by (simp add: env0_def succeeded_def failed_def tick0_old_def cluster0_def clusterState_def)




section \<open>The tick\<close>

subsection \<open>What the end of a tick does\<close>

lemma trace_updateClusterView:
  "trace (updateClusterView \<omega> t) = trace t @
     (case o_NewRedisClusterView_report \<omega> of
        Some err \<Rightarrow> [NewRedisClusterView,
                     LogInfo ''[Warn] Could not get view for api view update, Error: %v'']
      | None \<Rightarrow> [NewRedisClusterView, JsonMarshal, SaveRedisClusterView,
                  SaveRedisClusterState (clusterState t), StatusUpdate (clusterState t),
                  LogInfo (''Updated state to: ['' @ clusterState t @ '']'')])"
  by (simp add: updateClusterView_def Let_def split: option.splits)

lemma State_updateClusterView [simp]: "State (updateClusterView \<omega> t) = State t"
  by (simp add: updateClusterView_def Let_def split: option.splits)

lemma clusterState_updateClusterView [simp]:
  "clusterState (updateClusterView \<omega> t) = clusterState t"
  by (simp add: updateClusterView_def Let_def split: option.splits)

lemma trace_updateClusterView_old:
  "trace (updateClusterView_old \<omega> t) = trace t @
     (case o_NewRedisClusterView_report \<omega> of
        Some err \<Rightarrow> [NewRedisClusterView,
                     LogInfo ''[Warn] Could not get view for api view update, Error: %v'']
      | None \<Rightarrow> [NewRedisClusterView, JsonMarshal, SaveRedisClusterView,
                  SaveRedisClusterState (clusterState t), UpdateClusterStateView] @
                 (case o_updateClusterStateView \<omega> of None \<Rightarrow> []
                  | Some e \<Rightarrow> CreateClusterStateView #
                     (case o_createClusterStateView \<omega> of None \<Rightarrow> []
                      | Some e' \<Rightarrow> [LogError e' ''Could not update cluster state view''])))"
  by (simp add: updateClusterView_old_def Let_def split: option.splits)

lemma State_updateClusterView_old [simp]: "State (updateClusterView_old \<omega> t) = State t"
  by (simp add: updateClusterView_old_def Let_def split: option.splits)

lemma clusterState_updateClusterView_old [simp]:
  "clusterState (updateClusterView_old \<omega> t) = clusterState t"
  by (simp add: updateClusterView_old_def Let_def split: option.splits)

lemma fst_Reconcile_finish [simp]:
  "fst (Reconcile_finish \<omega> err t) =
     (\<lparr>Requeue = (err = None), RequeueAfter = 15 * Second\<rparr>, None)"
  by (simp add: Reconcile_finish_def Let_def)

lemma fst_Reconcile_finish_old [simp]:
  "fst (Reconcile_finish_old \<omega> err t) = (\<lparr>Requeue = False, RequeueAfter = 15 * Second\<rparr>, None)"
  by (simp add: Reconcile_finish_old_def Let_def)

lemma trace_Reconcile_finish:
  "trace (snd (Reconcile_finish \<omega> err t)) =
     trace t @ (case err of Some e \<Rightarrow> [LogError e ''Handling error''] | None \<Rightarrow> []) @
     (case o_NewRedisClusterView_report \<omega> of
        Some err \<Rightarrow> [NewRedisClusterView,
                     LogInfo ''[Warn] Could not get view for api view update, Error: %v'']
      | None \<Rightarrow> [NewRedisClusterView, JsonMarshal, SaveRedisClusterView,
                  SaveRedisClusterState (clusterState t), StatusUpdate (clusterState t),
                  LogInfo (''Updated state to: ['' @ clusterState t @ '']'')]) @
     [UpdateClusterStateView]"
  by (simp add: Reconcile_finish_def Let_def trace_updateClusterView split: option.splits)

lemma trace_Reconcile_finish_old:
  "trace (snd (Reconcile_finish_old \<omega> err t)) =
     trace t @ (case err of Some e \<Rightarrow> [LogError e ''Handling error''] | None \<Rightarrow> []) @
     [StatusUpdate (clusterState t), LogInfo (''Updated state to: ['' @ clusterState t @ '']'')] @
     (case o_NewRedisClusterView_report \<omega> of
        Some err \<Rightarrow> [NewRedisClusterView,
                     LogInfo ''[Warn] Could not get view for api view update, Error: %v'']
      | None \<Rightarrow> [NewRedisClusterView, JsonMarshal, SaveRedisClusterView,
                  SaveRedisClusterState (clusterState t), UpdateClusterStateView] @
                 (case o_updateClusterStateView \<omega> of None \<Rightarrow> []
                  | Some e \<Rightarrow> CreateClusterStateView #
                     (case o_createClusterStateView \<omega> of None \<Rightarrow> []
                      | Some e' \<Rightarrow> [LogError e' ''Could not update cluster state view''])))"
  by (simp add: Reconcile_finish_old_def Let_def trace_updateClusterView_old split: option.splits)

lemma State_Reconcile_finish [simp]: "State (snd (Reconcile_finish \<omega> err t)) = State t"
  by (simp add: Reconcile_finish_def Let_def split: option.splits)

lemma State_Reconcile_finish_old [simp]:
  "State (snd (Reconcile_finish_old \<omega> err t)) = State t"
  by (simp add: Reconcile_finish_old_def Let_def split: option.splits)

lemma regenerates_Reconcile_finish [simp]:
  "regenerates (trace (snd (Reconcile_finish \<omega> err t))) = regenerates (trace t)"
  by (simp add: trace_Reconcile_finish split: option.splits)

lemma regenerates_Reconcile_finish_old [simp]:
  "regenerates (trace (snd (Reconcile_finish_old \<omega> err t))) = regenerates (trace t)"
  by (simp add: trace_Reconcile_finish_old split: option.splits)

lemma handlers_of_Reconcile_finish [simp]:
  "handlers_of (trace (snd (Reconcile_finish \<omega> err t))) = handlers_of (trace t)"
  by (simp add: trace_Reconcile_finish split: option.splits)

lemma handlers_of_Reconcile_finish_old [simp]:
  "handlers_of (trace (snd (Reconcile_finish_old \<omega> err t))) = handlers_of (trace t)"
  by (simp add: trace_Reconcile_finish_old split: option.splits)

subsection \<open>Errors of a tick\<close>

text \<open>A tick that reaches the switch, and the handler the switch selects.\<close>

lemma Reconcile_dispatched:
  assumes "o_Get \<omega> = Inr rc"
    and "tickState (Status_ClusterState rc) = NotExists
         \<or> tickState (Status_ClusterState rc) = Reset
         \<or> o_getClusterStateView \<omega> = None"
  shows "let u = emit GetClusterStateView
                   ((emit GetCluster (emit (Println ''Reconcile call'') t))
                      \<lparr>cluster := rc, State := tickState (Status_ClusterState rc)\<rparr>);
             u' = (if State u = NotExists \<or> State u = Reset
                   then emit (CreateStateView (Spec_LeaderCount rc)
                                              (Spec_LeaderFollowersCount rc)) u
                   else u)
         in Reconcile \<omega> t =
              Reconcile_finish \<omega> (fst (Reconcile_switch \<omega> (o_getClusterStateView \<omega>) u'))
                                 (snd (Reconcile_switch \<omega> (o_getClusterStateView \<omega>) u'))"
  using assms
  by (auto simp: Reconcile_def Let_def tickState_def split: prod.splits option.splits)

lemma Reconcile_old_dispatched:
  assumes "o_Get \<omega> = Inr rc"
    and "tickState (Status_ClusterState rc) = NotExists
         \<or> o_getClusterStateView \<omega> = None"
  shows "let u = emit GetClusterStateView
                   ((emit GetCluster (emit (Println ''Reconcile call'') t))
                      \<lparr>cluster := rc, State := tickState (Status_ClusterState rc)\<rparr>);
             u' = (if State u = NotExists
                   then emit (CreateStateView (Spec_LeaderCount rc)
                                              (Spec_LeaderFollowersCount rc)) u
                   else u)
         in Reconcile_old \<omega> t =
              Reconcile_finish_old \<omega> (fst (Reconcile_switch_old \<omega> (o_getClusterStateView \<omega>) u'))
                                 (snd (Reconcile_switch_old \<omega> (o_getClusterStateView \<omega>) u'))"
  using assms
  by (auto simp: Reconcile_old_def Let_def tickState_def split: prod.splits option.splits)

lemma logged_by_finish:
  "LogError e ''Handling error'' \<in> set (trace (snd (Reconcile_finish \<omega> (Some e) t)))"
  "LogError e ''Handling error'' \<in> set (trace (snd (Reconcile_finish_old \<omega> (Some e) t')))"
  by (simp_all add: trace_Reconcile_finish trace_Reconcile_finish_old)

lemma Reconcile_switch_handler:
  "(State u = NotExists \<or> State u = Reset \<longrightarrow>
      fst (Reconcile_switch \<omega> err u) = fst (handleInitializingCluster \<omega> u))
   \<and> (State u = Ready \<longrightarrow> fst (Reconcile_switch \<omega> err u) = fst (handleReadyState \<omega> u))
   \<and> (State u = Recovering \<longrightarrow>
        fst (Reconcile_switch \<omega> err u) = fst (handleRecoveringState \<omega> u))
   \<and> (State u = Updating \<longrightarrow> fst (Reconcile_switch \<omega> err u) = fst (handleUpdatingState \<omega> u))
   \<and> (State u = Scale \<longrightarrow> fst (Reconcile_switch \<omega> err u) = fst (handleScaleState \<omega> u))"
  by (auto simp: Reconcile_switch_def state_defs)

lemma Reconcile_switch_old_handler:
  "(State u = NotExists \<or> State u = Reset \<longrightarrow>
      fst (Reconcile_switch_old \<omega> err u) = fst (handleInitializingCluster_old \<omega> u))
   \<and> (State u = Ready \<and> \<not> ClusterReset u \<longrightarrow>
        fst (Reconcile_switch_old \<omega> err u) = fst (handleReadyState_old \<omega> u))
   \<and> (State u = Recovering \<and> \<not> ClusterReset u \<longrightarrow>
        fst (Reconcile_switch_old \<omega> err u) = fst (handleRecoveringState_old \<omega> u))
   \<and> (State u = Updating \<and> \<not> ClusterReset u \<longrightarrow>
        fst (Reconcile_switch_old \<omega> err u) = fst (handleUpdatingState_old \<omega> u))
   \<and> (State u = Scale \<and> \<not> ClusterReset u \<longrightarrow>
        fst (Reconcile_switch_old \<omega> err u) = fst (handleScaleState_old \<omega> u))"
  by (auto simp: Reconcile_switch_old_def state_defs split: prod.splits)



lemma Reconcile_logs:
  assumes g: "o_Get \<omega> = Inr rc"
      and d: "tickState (Status_ClusterState rc) = NotExists
              \<or> tickState (Status_ClusterState rc) = Reset
              \<or> o_getClusterStateView \<omega> = None"
      and u: "u = emit GetClusterStateView
                    ((emit GetCluster (emit (Println ''Reconcile call'') t))
                       \<lparr>cluster := rc, State := tickState (Status_ClusterState rc)\<rparr>)"
      and u': "u' = (if State u = NotExists \<or> State u = Reset
                    then emit (CreateStateView (Spec_LeaderCount rc)
                                               (Spec_LeaderFollowersCount rc)) u
                    else u)"
  shows "Reconcile \<omega> t =
               Reconcile_finish \<omega> (fst (Reconcile_switch \<omega> (o_getClusterStateView \<omega>) u'))
                                  (snd (Reconcile_switch \<omega> (o_getClusterStateView \<omega>) u'))
             \<and> snd (fst (Reconcile \<omega> t)) = None
             \<and> RequeueAfter (fst (fst (Reconcile \<omega> t))) = 15 * Second
             \<and> (((State u' = NotExists \<or> State u' = Reset)
                     \<and> fst (handleInitializingCluster \<omega> u') = Some e)
                  \<or> (State u' = Ready \<and> fst (handleReadyState \<omega> u') = Some e)
                  \<or> (State u' = Recovering \<and> fst (handleRecoveringState \<omega> u') = Some e)
                  \<or> (State u' = Updating \<and> fst (handleUpdatingState \<omega> u') = Some e)
                  \<or> (State u' = Scale \<and> fst (handleScaleState \<omega> u') = Some e)
                \<longrightarrow> LogError e ''Handling error'' \<in> set (trace (snd (Reconcile \<omega> t))))"
proof -
  let ?sw = "Reconcile_switch \<omega> (o_getClusterStateView \<omega>) u'"
  have R: "Reconcile \<omega> t = Reconcile_finish \<omega> (fst ?sw) (snd ?sw)"
    using Reconcile_dispatched [OF g d, of t] u u' by (simp add: Let_def)
  have res: "snd (fst (Reconcile \<omega> t)) = None"
            "RequeueAfter (fst (fst (Reconcile \<omega> t))) = 15 * Second"
    unfolding R by simp_all
  have lg: "LogError e ''Handling error'' \<in> set (trace (snd (Reconcile \<omega> t)))"
    if "fst ?sw = Some e"
    unfolding R that by (rule logged_by_finish)
  have sw: "fst ?sw = Some e"
    if "((State u' = NotExists \<or> State u' = Reset)
                     \<and> fst (handleInitializingCluster \<omega> u') = Some e)
                  \<or> (State u' = Ready \<and> fst (handleReadyState \<omega> u') = Some e)
                  \<or> (State u' = Recovering \<and> fst (handleRecoveringState \<omega> u') = Some e)
                  \<or> (State u' = Updating \<and> fst (handleUpdatingState \<omega> u') = Some e)
                  \<or> (State u' = Scale \<and> fst (handleScaleState \<omega> u') = Some e)"
    using that Reconcile_switch_handler [of u' \<omega> "o_getClusterStateView \<omega>"]
    by (elim disjE conjE) simp_all
  show ?thesis
    by (intro conjI impI) (fact R res lg [OF sw])+
qed

lemma Reconcile_old_logs:
  assumes g: "o_Get \<omega> = Inr rc"
      and d: "tickState (Status_ClusterState rc) = NotExists
              \<or> o_getClusterStateView \<omega> = None"
      and u: "u = emit GetClusterStateView
                    ((emit GetCluster (emit (Println ''Reconcile call'') t'))
                       \<lparr>cluster := rc, State := tickState (Status_ClusterState rc)\<rparr>)"
      and u': "u' = (if State u = NotExists
                    then emit (CreateStateView (Spec_LeaderCount rc)
                                               (Spec_LeaderFollowersCount rc)) u
                    else u)"
  shows "Reconcile_old \<omega> t' =
               Reconcile_finish_old \<omega>
                 (fst (Reconcile_switch_old \<omega> (o_getClusterStateView \<omega>) u'))
                 (snd (Reconcile_switch_old \<omega> (o_getClusterStateView \<omega>) u'))
             \<and> snd (fst (Reconcile_old \<omega> t')) = None
             \<and> RequeueAfter (fst (fst (Reconcile_old \<omega> t'))) = 15 * Second
             \<and> (((State u' = NotExists \<or> State u' = Reset)
                     \<and> fst (handleInitializingCluster_old \<omega> u') = Some e)
                  \<or> (State u' = Ready \<and> \<not> ClusterReset u'
                      \<and> fst (handleReadyState_old \<omega> u') = Some e)
                  \<or> (State u' = Recovering \<and> \<not> ClusterReset u'
                      \<and> fst (handleRecoveringState_old \<omega> u') = Some e)
                  \<or> (State u' = Updating \<and> \<not> ClusterReset u'
                      \<and> fst (handleUpdatingState_old \<omega> u') = Some e)
                  \<or> (State u' = Scale \<and> \<not> ClusterReset u'
                      \<and> fst (handleScaleState_old \<omega> u') = Some e)
                \<longrightarrow> LogError e ''Handling error'' \<in> set (trace (snd (Reconcile_old \<omega> t'))))"
proof -
  let ?sw = "Reconcile_switch_old \<omega> (o_getClusterStateView \<omega>) u'"
  have R: "Reconcile_old \<omega> t' = Reconcile_finish_old \<omega> (fst ?sw) (snd ?sw)"
    using Reconcile_old_dispatched [OF g d, of t'] u u' by (simp add: Let_def)
  have res: "snd (fst (Reconcile_old \<omega> t')) = None"
            "RequeueAfter (fst (fst (Reconcile_old \<omega> t'))) = 15 * Second"
    unfolding R by simp_all
  have lg: "LogError e ''Handling error'' \<in> set (trace (snd (Reconcile_old \<omega> t')))"
    if "fst ?sw = Some e"
    unfolding R that by (rule logged_by_finish)
  have sw: "fst ?sw = Some e"
    if "((State u' = NotExists \<or> State u' = Reset)
                     \<and> fst (handleInitializingCluster_old \<omega> u') = Some e)
                  \<or> (State u' = Ready \<and> \<not> ClusterReset u'
                      \<and> fst (handleReadyState_old \<omega> u') = Some e)
                  \<or> (State u' = Recovering \<and> \<not> ClusterReset u'
                      \<and> fst (handleRecoveringState_old \<omega> u') = Some e)
                  \<or> (State u' = Updating \<and> \<not> ClusterReset u'
                      \<and> fst (handleUpdatingState_old \<omega> u') = Some e)
                  \<or> (State u' = Scale \<and> \<not> ClusterReset u'
                      \<and> fst (handleScaleState_old \<omega> u') = Some e)"
    using that Reconcile_switch_old_handler [of u' \<omega> "o_getClusterStateView \<omega>"]
    by (elim disjE conjE) simp_all
  show ?thesis
    by (intro conjI impI) (fact R res lg [OF sw])+
qed

text \<open>
  C6. Whatever error a state handler returns, and whatever the tick state it leaves, the
  rest of \<^verbatim>\<open>Reconcile\<close> logs that error (\<open>Handling error\<close>), returns a
  \<^verbatim>\<open>nil\<close> error and asks to be run again after 15 seconds. A whole tick whose fetch of
  the declaration succeeded returns a \<^verbatim>\<open>nil\<close> error and a requeue delay of 15 or of 20
  seconds. A tick that reaches the switch (the declaration was fetched, and the stored
  view was read or the state is one that regenerates it) is the rest of
  \<^verbatim>\<open>Reconcile\<close> applied to what the switch returns: whichever handler the state selects,
  if that handler, run on the tick state \<open>u'\<close> in which the switch is reached, returns an
  error, then the trace of the tick holds the log event of that error, and the tick
  returns a \<^verbatim>\<open>nil\<close> error and a delay of 15 seconds. Both versions; in the older one the
  handlers of Ready, Recovering, Updating and Scale run only while \<^verbatim>\<open>ClusterReset\<close> is
  false.
\<close>

theorem handler_error_stays_in_tick:
  "snd (fst (Reconcile_finish \<omega> err t)) = None
   \<and> RequeueAfter (fst (fst (Reconcile_finish \<omega> err t))) = 15 * Second
   \<and> (\<forall>e. err = Some e \<longrightarrow>
         LogError e ''Handling error'' \<in> set (trace (snd (Reconcile_finish \<omega> err t))))
   \<and> snd (fst (Reconcile_finish_old \<omega> err t')) = None
   \<and> RequeueAfter (fst (fst (Reconcile_finish_old \<omega> err t'))) = 15 * Second
   \<and> (\<forall>e. err = Some e \<longrightarrow>
         LogError e ''Handling error'' \<in> set (trace (snd (Reconcile_finish_old \<omega> err t'))))
   \<and> (\<forall>rc. o_Get \<omega> = Inr rc \<longrightarrow>
         snd (fst (Reconcile \<omega> t)) = None
         \<and> RequeueAfter (fst (fst (Reconcile \<omega> t))) \<in> {15 * Second, 20 * Second}
         \<and> snd (fst (Reconcile_old \<omega> t')) = None
         \<and> RequeueAfter (fst (fst (Reconcile_old \<omega> t'))) \<in> {15 * Second, 20 * Second})
   \<and> (\<forall>rc e. o_Get \<omega> = Inr rc
          \<and> (tickState (Status_ClusterState rc) = NotExists
              \<or> tickState (Status_ClusterState rc) = Reset
              \<or> o_getClusterStateView \<omega> = None) \<longrightarrow>
         (let u = emit GetClusterStateView
                    ((emit GetCluster (emit (Println ''Reconcile call'') t))
                       \<lparr>cluster := rc, State := tickState (Status_ClusterState rc)\<rparr>);
              u' = (if State u = NotExists \<or> State u = Reset
                    then emit (CreateStateView (Spec_LeaderCount rc)
                                               (Spec_LeaderFollowersCount rc)) u
                    else u)
          in Reconcile \<omega> t =
               Reconcile_finish \<omega> (fst (Reconcile_switch \<omega> (o_getClusterStateView \<omega>) u'))
                                  (snd (Reconcile_switch \<omega> (o_getClusterStateView \<omega>) u'))
             \<and> snd (fst (Reconcile \<omega> t)) = None
             \<and> RequeueAfter (fst (fst (Reconcile \<omega> t))) = 15 * Second
             \<and> (((State u' = NotExists \<or> State u' = Reset)
                     \<and> fst (handleInitializingCluster \<omega> u') = Some e)
                  \<or> (State u' = Ready \<and> fst (handleReadyState \<omega> u') = Some e)
                  \<or> (State u' = Recovering \<and> fst (handleRecoveringState \<omega> u') = Some e)
                  \<or> (State u' = Updating \<and> fst (handleUpdatingState \<omega> u') = Some e)
                  \<or> (State u' = Scale \<and> fst (handleScaleState \<omega> u') = Some e)
                \<longrightarrow> LogError e ''Handling error'' \<in> set (trace (snd (Reconcile \<omega> t))))))
   \<and> (\<forall>rc e. o_Get \<omega> = Inr rc
          \<and> (tickState (Status_ClusterState rc) = NotExists
              \<or> o_getClusterStateView \<omega> = None) \<longrightarrow>
         (let u = emit GetClusterStateView
                    ((emit GetCluster (emit (Println ''Reconcile call'') t'))
                       \<lparr>cluster := rc, State := tickState (Status_ClusterState rc)\<rparr>);
              u' = (if State u = NotExists
                    then emit (CreateStateView (Spec_LeaderCount rc)
                                               (Spec_LeaderFollowersCount rc)) u
                    else u)
          in Reconcile_old \<omega> t' =
               Reconcile_finish_old \<omega>
                 (fst (Reconcile_switch_old \<omega> (o_getClusterStateView \<omega>) u'))
                 (snd (Reconcile_switch_old \<omega> (o_getClusterStateView \<omega>) u'))
             \<and> snd (fst (Reconcile_old \<omega> t')) = None
             \<and> RequeueAfter (fst (fst (Reconcile_old \<omega> t'))) = 15 * Second
             \<and> (((State u' = NotExists \<or> State u' = Reset)
                     \<and> fst (handleInitializingCluster_old \<omega> u') = Some e)
                  \<or> (State u' = Ready \<and> \<not> ClusterReset u'
                      \<and> fst (handleReadyState_old \<omega> u') = Some e)
                  \<or> (State u' = Recovering \<and> \<not> ClusterReset u'
                      \<and> fst (handleRecoveringState_old \<omega> u') = Some e)
                  \<or> (State u' = Updating \<and> \<not> ClusterReset u'
                      \<and> fst (handleUpdatingState_old \<omega> u') = Some e)
                  \<or> (State u' = Scale \<and> \<not> ClusterReset u'
                      \<and> fst (handleScaleState_old \<omega> u') = Some e)
                \<longrightarrow> LogError e ''Handling error'' \<in> set (trace (snd (Reconcile_old \<omega> t'))))))"
proof -
  have fin: "snd (fst (Reconcile_finish \<omega> err t)) = None"
            "RequeueAfter (fst (fst (Reconcile_finish \<omega> err t))) = 15 * Second"
            "\<forall>e. err = Some e \<longrightarrow>
         LogError e ''Handling error'' \<in> set (trace (snd (Reconcile_finish \<omega> err t)))"
            "snd (fst (Reconcile_finish_old \<omega> err t')) = None"
            "RequeueAfter (fst (fst (Reconcile_finish_old \<omega> err t'))) = 15 * Second"
            "\<forall>e. err = Some e \<longrightarrow>
         LogError e ''Handling error'' \<in> set (trace (snd (Reconcile_finish_old \<omega> err t')))"
    by (simp_all add: trace_Reconcile_finish trace_Reconcile_finish_old)
  have new: "snd (fst (Reconcile \<omega> t)) = None
         \<and> RequeueAfter (fst (fst (Reconcile \<omega> t))) \<in> {15 * Second, 20 * Second}"
    if "o_Get \<omega> = Inr rc" for rc
    using that by (simp add: Reconcile_def Let_def split: option.splits prod.splits)
  have old: "snd (fst (Reconcile_old \<omega> t')) = None
         \<and> RequeueAfter (fst (fst (Reconcile_old \<omega> t'))) \<in> {15 * Second, 20 * Second}"
    if "o_Get \<omega> = Inr rc" for rc
    using that by (simp add: Reconcile_old_def Let_def split: option.splits prod.splits)
  have whole: "\<forall>rc. o_Get \<omega> = Inr rc \<longrightarrow>
         snd (fst (Reconcile \<omega> t)) = None
         \<and> RequeueAfter (fst (fst (Reconcile \<omega> t))) \<in> {15 * Second, 20 * Second}
         \<and> snd (fst (Reconcile_old \<omega> t')) = None
         \<and> RequeueAfter (fst (fst (Reconcile_old \<omega> t'))) \<in> {15 * Second, 20 * Second}"
    using new old by blast
  have tick_new: "\<forall>rc e. o_Get \<omega> = Inr rc
          \<and> (tickState (Status_ClusterState rc) = NotExists
              \<or> tickState (Status_ClusterState rc) = Reset
              \<or> o_getClusterStateView \<omega> = None) \<longrightarrow>
         (let u = emit GetClusterStateView
                    ((emit GetCluster (emit (Println ''Reconcile call'') t))
                       \<lparr>cluster := rc, State := tickState (Status_ClusterState rc)\<rparr>);
              u' = (if State u = NotExists \<or> State u = Reset
                    then emit (CreateStateView (Spec_LeaderCount rc)
                                               (Spec_LeaderFollowersCount rc)) u
                    else u)
          in Reconcile \<omega> t =
               Reconcile_finish \<omega> (fst (Reconcile_switch \<omega> (o_getClusterStateView \<omega>) u'))
                                  (snd (Reconcile_switch \<omega> (o_getClusterStateView \<omega>) u'))
             \<and> snd (fst (Reconcile \<omega> t)) = None
             \<and> RequeueAfter (fst (fst (Reconcile \<omega> t))) = 15 * Second
             \<and> (((State u' = NotExists \<or> State u' = Reset)
                     \<and> fst (handleInitializingCluster \<omega> u') = Some e)
                  \<or> (State u' = Ready \<and> fst (handleReadyState \<omega> u') = Some e)
                  \<or> (State u' = Recovering \<and> fst (handleRecoveringState \<omega> u') = Some e)
                  \<or> (State u' = Updating \<and> fst (handleUpdatingState \<omega> u') = Some e)
                  \<or> (State u' = Scale \<and> fst (handleScaleState \<omega> u') = Some e)
                \<longrightarrow> LogError e ''Handling error'' \<in> set (trace (snd (Reconcile \<omega> t)))))"
    unfolding Let_def
    by (intro allI impI, elim conjE) (rule Reconcile_logs [OF _ _ refl refl]; assumption)
  have tick_old: "\<forall>rc e. o_Get \<omega> = Inr rc
          \<and> (tickState (Status_ClusterState rc) = NotExists
              \<or> o_getClusterStateView \<omega> = None) \<longrightarrow>
         (let u = emit GetClusterStateView
                    ((emit GetCluster (emit (Println ''Reconcile call'') t'))
                       \<lparr>cluster := rc, State := tickState (Status_ClusterState rc)\<rparr>);
              u' = (if State u = NotExists
                    then emit (CreateStateView (Spec_LeaderCount rc)
                                               (Spec_LeaderFollowersCount rc)) u
                    else u)
          in Reconcile_old \<omega> t' =
               Reconcile_finish_old \<omega>
                 (fst (Reconcile_switch_old \<omega> (o_getClusterStateView \<omega>) u'))
                 (snd (Reconcile_switch_old \<omega> (o_getClusterStateView \<omega>) u'))
             \<and> snd (fst (Reconcile_old \<omega> t')) = None
             \<and> RequeueAfter (fst (fst (Reconcile_old \<omega> t'))) = 15 * Second
             \<and> (((State u' = NotExists \<or> State u' = Reset)
                     \<and> fst (handleInitializingCluster_old \<omega> u') = Some e)
                  \<or> (State u' = Ready \<and> \<not> ClusterReset u'
                      \<and> fst (handleReadyState_old \<omega> u') = Some e)
                  \<or> (State u' = Recovering \<and> \<not> ClusterReset u'
                      \<and> fst (handleRecoveringState_old \<omega> u') = Some e)
                  \<or> (State u' = Updating \<and> \<not> ClusterReset u'
                      \<and> fst (handleUpdatingState_old \<omega> u') = Some e)
                  \<or> (State u' = Scale \<and> \<not> ClusterReset u'
                      \<and> fst (handleScaleState_old \<omega> u') = Some e)
                \<longrightarrow> LogError e ''Handling error'' \<in> set (trace (snd (Reconcile_old \<omega> t')))))"
    unfolding Let_def
    by (intro allI impI, elim conjE) (rule Reconcile_old_logs [OF _ _ refl refl]; assumption)
  show ?thesis
    by (intro conjI) (fact fin whole tick_new tick_old)+
qed

text \<open>A tick in state Updating whose rolling update fails: the handler returns the
  error, the tick logs it, returns no error and asks to be run again after 15 seconds.\<close>

theorem handler_error_stays_in_tick_witness:
  "o_Get ((env0 Updating)\<lparr>o_updateCluster := failed err0\<rparr>) = Inr (cluster0 Updating)
   \<and> o_getClusterStateView ((env0 Updating)\<lparr>o_updateCluster := failed err0\<rparr>) = None
   \<and> fst (handleUpdatingState ((env0 Updating)\<lparr>o_updateCluster := failed err0\<rparr>) (tick0 Updating))
       = Some err0
   \<and> LogError err0 ''Handling error''
        \<in> set (trace (snd (Reconcile ((env0 Updating)\<lparr>o_updateCluster := failed err0\<rparr>)
                              (tick0 NotExists))))
   \<and> snd (fst (Reconcile ((env0 Updating)\<lparr>o_updateCluster := failed err0\<rparr>) (tick0 NotExists))) = None
   \<and> RequeueAfter (fst (fst (Reconcile ((env0 Updating)\<lparr>o_updateCluster := failed err0\<rparr>)
                                (tick0 NotExists)))) = 15000000000
   \<and> LogError err0 ''Handling error''
        \<in> set (trace (snd (Reconcile_old ((env0 Updating)\<lparr>o_updateCluster := failed err0\<rparr>)
                              (tick0_old NotExists False))))
   \<and> snd (fst (Reconcile_old ((env0 Updating)\<lparr>o_updateCluster := failed err0\<rparr>)
                  (tick0_old NotExists False))) = None
   \<and> LogError err0 ''Handling error''
        \<in> set (trace (snd (Reconcile_finish ((env0 Updating)\<lparr>o_updateCluster := failed err0\<rparr>)
                              (Some err0) (tick0 NotExists))))"
proof -
  let ?\<omega> = "(env0 Updating)\<lparr>o_updateCluster := failed err0\<rparr>"
  note T = handler_error_stays_in_tick
             [of ?\<omega> "Some err0" "tick0 NotExists" "tick0_old NotExists False",
              unfolded Let_def]
  note T7 = T [THEN conjunct2, THEN conjunct2, THEN conjunct2, THEN conjunct2,
               THEN conjunct2, THEN conjunct2, THEN conjunct2]
  have g: "o_Get ?\<omega> = Inr (cluster0 Updating)" by (simp add: env0_def)
  have v: "o_getClusterStateView ?\<omega> = None" by (simp add: env0_def)
  have h: "fst (handleUpdatingState ?\<omega> u) = Some err0" for u :: tick
    by (simp add: handleUpdatingState_def Let_def failed_def)
  have h': "fst (handleUpdatingState_old ?\<omega> u) = Some err0" for u :: tick_old
    by (simp add: handleUpdatingState_old_def Let_def failed_def)
  have s: "tickState (Status_ClusterState (cluster0 Updating)) = Updating"
          "Updating \<noteq> NotExists" "Updating \<noteq> Reset"
    by (simp_all add: tickState_def cluster0_def state_defs)
  note N = T7 [THEN conjunct1, rule_format, of "cluster0 Updating" err0,
               OF conjI [OF g disjI2 [OF disjI2 [OF v]]]]
  note M = T7 [THEN conjunct2, rule_format, of "cluster0 Updating" err0,
               OF conjI [OF g disjI2 [OF v]]]
  have lg: "LogError err0 ''Handling error''
              \<in> set (trace (snd (Reconcile ?\<omega> (tick0 NotExists))))"
    using N [THEN conjunct2, THEN conjunct2, THEN conjunct2] h s by simp
  have lg': "LogError err0 ''Handling error''
              \<in> set (trace (snd (Reconcile_old ?\<omega> (tick0_old NotExists False))))"
    using M [THEN conjunct2, THEN conjunct2, THEN conjunct2] h' s
    by (simp add: tick0_old_def)
  have r: "snd (fst (Reconcile ?\<omega> (tick0 NotExists))) = None"
          "RequeueAfter (fst (fst (Reconcile ?\<omega> (tick0 NotExists)))) = 15000000000"
    using N [THEN conjunct2, THEN conjunct1]
          N [THEN conjunct2, THEN conjunct2, THEN conjunct1]
    by (simp_all add: Second_def)
  have r': "snd (fst (Reconcile_old ?\<omega> (tick0_old NotExists False))) = None"
    using M [THEN conjunct2, THEN conjunct1] by simp
  have f: "LogError err0 ''Handling error''
             \<in> set (trace (snd (Reconcile_finish ?\<omega> (Some err0) (tick0 NotExists))))"
    using T [THEN conjunct2, THEN conjunct2, THEN conjunct1] by simp
  show ?thesis
    by (intro conjI) (fact g v h lg lg' r r' f)+
qed

text \<open>
  C7. When the fetch of the cluster declaration fails, the tick ends there: it logs one
  line, enters no handler and writes nothing (the newer version asks to be run again
  after 15 seconds, the older returns the empty result). The error it returns is \<^verbatim>\<open>nil\<close> when the
  fetch error is a not-found error and the fetch error itself otherwise; a tick whose
  fetch succeeded returns \<^verbatim>\<open>nil\<close>. So an error is returned only for a fetch failure
  that is not a not-found. Both versions.
\<close>

theorem fetch_failure_stops_tick:
  "snd (fst (Reconcile \<omega> t)) =
     (case o_Get \<omega> of
        Inl e \<Rightarrow> (if IsNotFound (Some e) then None else Some e)
      | Inr rc \<Rightarrow> None)
   \<and> snd (fst (Reconcile_old \<omega> t')) =
     (case o_Get \<omega> of
        Inl e \<Rightarrow> (if IsNotFound (Some e) then None else Some e)
      | Inr rc \<Rightarrow> None)
   \<and> (\<forall>e. o_Get \<omega> = Inl e \<longrightarrow>
        fst (fst (Reconcile \<omega> t)) = \<lparr>Requeue = False, RequeueAfter = 15 * Second\<rparr>
        \<and> trace (snd (Reconcile \<omega> t)) =
          trace t @ [Println ''Reconcile call'', GetCluster,
                     LogInfo ''Unable to fetch RedisCluster resource'']
        \<and> handlers_of (trace (snd (Reconcile \<omega> t))) = handlers_of (trace t)
        \<and> fst (fst (Reconcile_old \<omega> t')) = Result_zero
        \<and> trace (snd (Reconcile_old \<omega> t')) =
          trace t' @ [Println ''Reconcile call'', GetCluster,
                      LogInfo ''Unable to fetch RedisCluster resource'']
        \<and> handlers_of (trace (snd (Reconcile_old \<omega> t'))) = handlers_of (trace t'))"
  by (simp add: Reconcile_def Reconcile_old_def Let_def IgnoreNotFound_def
           split: sum.splits option.splits prod.splits)

text \<open>A not-found fetch error gives no error and no handler; another fetch error is
  returned.\<close>

theorem fetch_failure_stops_tick_witness:
  "o_Get ((env0 Ready)\<lparr>o_Get := Inl err_not_found\<rparr>) = Inl err_not_found
   \<and> snd (fst (Reconcile ((env0 Ready)\<lparr>o_Get := Inl err_not_found\<rparr>) (tick0 Ready))) = None
   \<and> handlers_of (trace (snd (Reconcile ((env0 Ready)\<lparr>o_Get := Inl err_not_found\<rparr>)
                                 (tick0 Ready)))) = []
   \<and> snd (fst (Reconcile_old ((env0 Ready)\<lparr>o_Get := Inl err_not_found\<rparr>)
                  (tick0_old Ready False))) = None
   \<and> snd (fst (Reconcile ((env0 Ready)\<lparr>o_Get := Inl err0\<rparr>) (tick0 Ready))) = Some err0"
proof -
  have g: "o_Get ((env0 Ready)\<lparr>o_Get := Inl err_not_found\<rparr>) = Inl err_not_found"
          "o_Get ((env0 Ready)\<lparr>o_Get := Inl err0\<rparr>) = Inl err0"
    by simp_all
  from fetch_failure_stops_tick
         [of "(env0 Ready)\<lparr>o_Get := Inl err_not_found\<rparr>" "tick0 Ready" "tick0_old Ready False"]
       fetch_failure_stops_tick
         [of "(env0 Ready)\<lparr>o_Get := Inl err0\<rparr>" "tick0 Ready" "tick0_old Ready False"]
  show ?thesis using g by (simp add: err_not_found_def err0_def tick0_def)
qed

subsection \<open>The shape of the handlers' traces\<close>

lemma fst_handleInitializingCluster:
  "fst (handleInitializingCluster \<omega> t) =
     (case o_deleteAllRedisClusterPods \<omega> of Some e \<Rightarrow> Some e
      | None \<Rightarrow> (case returned (o_createNewRedisCluster \<omega>) of Some e \<Rightarrow> Some e
                  | None \<Rightarrow> returned (o_initializeFollowers \<omega>)))"
  by (simp add: handleInitializingCluster_def Let_def split: option.splits)

lemma fst_handleInitializingCluster_old:
  "fst (handleInitializingCluster_old \<omega> t) =
     (case o_deleteAllRedisClusterPods \<omega> of Some e \<Rightarrow> Some e
      | None \<Rightarrow> (case returned (o_createNewRedisCluster \<omega>) of Some e \<Rightarrow> Some e
                  | None \<Rightarrow> returned (o_initializeFollowers \<omega>)))"
  by (simp add: handleInitializingCluster_old_def Let_def split: option.splits)

lemma handleInitializingCluster_shape:
  "State (snd (handleInitializingCluster \<omega> t)) = State t
   \<and> handlers_of (trace (snd (handleInitializingCluster \<omega> t)))
       = handlers_of (trace t) @ [HInitializing]
   \<and> (regenerates (trace t) \<longrightarrow> regenerates (trace (snd (handleInitializingCluster \<omega> t))))"
  by (simp add: handleInitializingCluster_def Let_def split: option.splits)

lemma handleReadyState_shape:
  "State (snd (handleReadyState \<omega> t)) = State t
   \<and> handlers_of (trace (snd (handleReadyState \<omega> t))) = handlers_of (trace t) @ [HReady]
   \<and> regenerates (trace (snd (handleReadyState \<omega> t))) = regenerates (trace t)"
  by (simp add: handleReadyState_def Let_def split: option.splits prod.splits)

lemma handleRecoveringState_shape:
  "State (snd (handleRecoveringState \<omega> t)) = State t
   \<and> handlers_of (trace (snd (handleRecoveringState \<omega> t)))
       = handlers_of (trace t) @ [HRecovering]
   \<and> regenerates (trace (snd (handleRecoveringState \<omega> t))) = regenerates (trace t)"
  by (simp add: handleRecoveringState_def Let_def split: option.splits prod.splits)

lemma handleUpdatingState_shape:
  "State (snd (handleUpdatingState \<omega> t)) = State t
   \<and> handlers_of (trace (snd (handleUpdatingState \<omega> t))) = handlers_of (trace t) @ [HUpdating]
   \<and> regenerates (trace (snd (handleUpdatingState \<omega> t))) = regenerates (trace t)"
  by (simp add: handleUpdatingState_def Let_def split: option.splits prod.splits)

lemma handleScaleState_shape:
  "State (snd (handleScaleState \<omega> t)) = State t
   \<and> handlers_of (trace (snd (handleScaleState \<omega> t))) = handlers_of (trace t) @ [HScale]
   \<and> regenerates (trace (snd (handleScaleState \<omega> t))) = regenerates (trace t)"
  by (simp add: handleScaleState_def Let_def split: option.splits prod.splits)

lemma handleInitializingCluster_old_shape:
  "State (snd (handleInitializingCluster_old \<omega> t)) = State t
   \<and> handlers_of (trace (snd (handleInitializingCluster_old \<omega> t)))
       = handlers_of (trace t) @ [HInitializing]
   \<and> (regenerates (trace t) \<longrightarrow> regenerates (trace (snd (handleInitializingCluster_old \<omega> t))))"
  by (simp add: handleInitializingCluster_old_def Let_def split: option.splits)

lemma handleReadyState_old_shape:
  "State (snd (handleReadyState_old \<omega> t)) = State t
   \<and> handlers_of (trace (snd (handleReadyState_old \<omega> t))) = handlers_of (trace t) @ [HReady]
   \<and> regenerates (trace (snd (handleReadyState_old \<omega> t))) = regenerates (trace t)"
  by (simp add: handleReadyState_old_def Let_def split: option.splits prod.splits)

lemma handleRecoveringState_old_shape:
  "State (snd (handleRecoveringState_old \<omega> t)) = State t
   \<and> handlers_of (trace (snd (handleRecoveringState_old \<omega> t)))
       = handlers_of (trace t) @ [HRecovering]
   \<and> regenerates (trace (snd (handleRecoveringState_old \<omega> t))) = regenerates (trace t)"
  by (simp add: handleRecoveringState_old_def Let_def split: option.splits prod.splits)

lemma handleUpdatingState_old_shape:
  "State (snd (handleUpdatingState_old \<omega> t)) = State t
   \<and> handlers_of (trace (snd (handleUpdatingState_old \<omega> t)))
       = handlers_of (trace t) @ [HUpdating]
   \<and> regenerates (trace (snd (handleUpdatingState_old \<omega> t))) = regenerates (trace t)"
  by (simp add: handleUpdatingState_old_def Let_def split: option.splits prod.splits)

lemma handleScaleState_old_shape:
  "State (snd (handleScaleState_old \<omega> t)) = State t
   \<and> handlers_of (trace (snd (handleScaleState_old \<omega> t))) = handlers_of (trace t) @ [HScale]
   \<and> regenerates (trace (snd (handleScaleState_old \<omega> t))) = regenerates (trace t)"
  by (simp add: handleScaleState_old_def Let_def split: option.splits prod.splits)

lemma Reconcile_switch_regenerates:
  "regenerates (trace (snd (Reconcile_switch \<omega> err t))) \<Longrightarrow>
     regenerates (trace t) \<or> State t = NotExists \<or> State t = Reset"
  by (simp add: Reconcile_switch_def handleReadyState_shape handleRecoveringState_shape
        handleUpdatingState_shape handleScaleState_shape split: if_splits)

lemma Reconcile_switch_old_regenerates:
  "regenerates (trace (snd (Reconcile_switch_old \<omega> err t))) \<Longrightarrow>
     regenerates (trace t) \<or> State t = NotExists \<or> State t = Reset"
  by (simp add: Reconcile_switch_old_def handleReadyState_old_shape
        handleRecoveringState_old_shape handleUpdatingState_old_shape
        handleScaleState_old_shape split: if_splits)

lemma Reconcile_regenerates:
  assumes "regenerates (trace (snd (Reconcile \<omega> (t\<lparr>trace := []\<rparr>))))"
  shows "case o_Get \<omega> of Inl e \<Rightarrow> False
         | Inr rc \<Rightarrow> tickState (Status_ClusterState rc) = NotExists
                     \<or> tickState (Status_ClusterState rc) = Reset"
proof (cases "o_Get \<omega>")
  case (Inl e)
  with assms show ?thesis by (simp add: Reconcile_def Let_def)
next
  case (Inr rc)
  show ?thesis
  proof (rule ccontr)
    assume neg: "\<not> ?thesis"
    let ?t5 = "emit GetClusterStateView
                 ((emit GetCluster (emit (Println ''Reconcile call'') (t\<lparr>trace := []\<rparr>)))
                    \<lparr>cluster := rc, State := Status_ClusterState rc\<rparr>)"
    from neg Inr have st: "State ?t5 \<noteq> NotExists" "State ?t5 \<noteq> Reset"
        "length (Status_ClusterState rc) \<noteq> 0"
      by (auto simp: tickState_def split: if_splits)
    have tr: "\<not> regenerates (trace ?t5)" by simp
    from assms Inr st obtain err where
      "regenerates (trace (snd (Reconcile_switch \<omega> err ?t5)))"
      by (auto simp: Reconcile_def Let_def split: option.splits prod.splits if_splits)
         (metis snd_conv)+
    from Reconcile_switch_regenerates [OF this] st tr show False by simp
  qed
qed

lemma Reconcile_old_regenerates:
  assumes "regenerates (trace (snd (Reconcile_old \<omega> (t\<lparr>trace := []\<rparr>))))"
  shows "case o_Get \<omega> of Inl e \<Rightarrow> False
         | Inr rc \<Rightarrow> tickState (Status_ClusterState rc) = NotExists
                     \<or> tickState (Status_ClusterState rc) = Reset"
proof (cases "o_Get \<omega>")
  case (Inl e)
  with assms show ?thesis by (simp add: Reconcile_old_def Let_def)
next
  case (Inr rc)
  show ?thesis
  proof (rule ccontr)
    assume neg: "\<not> ?thesis"
    let ?t5 = "emit GetClusterStateView
                 ((emit GetCluster (emit (Println ''Reconcile call'') (t\<lparr>trace := []\<rparr>)))
                    \<lparr>cluster := rc, State := Status_ClusterState rc\<rparr>)"
    from neg Inr have st: "State ?t5 \<noteq> NotExists" "State ?t5 \<noteq> Reset"
        "length (Status_ClusterState rc) \<noteq> 0"
      by (auto simp: tickState_def split: if_splits)
    have tr: "\<not> regenerates (trace ?t5)" by simp
    from assms Inr st obtain err where
      "regenerates (trace (snd (Reconcile_switch_old \<omega> err ?t5)))"
      by (auto simp: Reconcile_old_def Let_def split: option.splits prod.splits if_splits)
         (metis snd_conv)+
    from Reconcile_switch_old_regenerates [OF this] st tr show False by simp
  qed
qed

text \<open>A tick whose lifecycle state is NotExists.\<close>

lemma Reconcile_initial:
  assumes "o_Get \<omega> = Inr rc" and "tickState (Status_ClusterState rc) = NotExists"
  shows "fst (Reconcile \<omega> t) =
           (\<lparr>Requeue = (fst (handleInitializingCluster \<omega> t) = None),
             RequeueAfter = 15 * Second\<rparr>, None)
       \<and> State (snd (Reconcile \<omega> t)) = NotExists
       \<and> handlers_of (trace (snd (Reconcile \<omega> t))) = handlers_of (trace t) @ [HInitializing]
       \<and> regenerates (trace (snd (Reconcile \<omega> t)))"
proof -
  let ?t3 = "(emit GetCluster (emit (Println ''Reconcile call'') t))
                    \<lparr>cluster := rc, State := Status_ClusterState rc\<rparr>"
  let ?t4 = "if length (Status_ClusterState rc) = 0 then ?t3\<lparr>State := NotExists\<rparr> else ?t3"
  let ?t6 = "emit (CreateStateView (Spec_LeaderCount rc) (Spec_LeaderFollowersCount rc))
               (emit GetClusterStateView ?t4)"
  have st: "State ?t6 = NotExists"
    using assms(2) by (simp add: tickState_def split: if_splits)
  have R: "Reconcile \<omega> t =
     Reconcile_finish \<omega> (fst (handleInitializingCluster \<omega> ?t6))
                        (snd (handleInitializingCluster \<omega> ?t6))"
    using assms(1) st
    by (simp add: Reconcile_def Let_def Reconcile_switch_def split: prod.splits if_splits)
  have tr: "regenerates (trace ?t6)" "handlers_of (trace ?t6) = handlers_of (trace t)"
    by (simp_all split: if_splits)
  show ?thesis
    unfolding R using st tr
    by (simp add: handleInitializingCluster_shape fst_handleInitializingCluster
          split: option.splits)
qed

lemma Reconcile_old_initial:
  assumes "o_Get \<omega> = Inr rc" and "tickState (Status_ClusterState rc) = NotExists"
  shows "fst (Reconcile_old \<omega> t) = (\<lparr>Requeue = False, RequeueAfter = 15 * Second\<rparr>, None)
       \<and> State (snd (Reconcile_old \<omega> t)) = NotExists
       \<and> handlers_of (trace (snd (Reconcile_old \<omega> t))) = handlers_of (trace t) @ [HInitializing]
       \<and> regenerates (trace (snd (Reconcile_old \<omega> t)))"
proof -
  let ?t3 = "(emit GetCluster (emit (Println ''Reconcile call'') t))
                    \<lparr>cluster := rc, State := Status_ClusterState rc\<rparr>"
  let ?t4 = "if length (Status_ClusterState rc) = 0 then ?t3\<lparr>State := NotExists\<rparr> else ?t3"
  let ?t6 = "emit (CreateStateView (Spec_LeaderCount rc) (Spec_LeaderFollowersCount rc))
               (emit GetClusterStateView ?t4)"
  have st: "State ?t6 = NotExists"
    using assms(2) by (simp add: tickState_def split: if_splits)
  have R: "Reconcile_old \<omega> t =
     Reconcile_finish_old \<omega> (fst (handleInitializingCluster_old \<omega> ?t6))
                            (snd (handleInitializingCluster_old \<omega> ?t6))"
    using assms(1) st
    by (simp add: Reconcile_old_def Let_def Reconcile_switch_old_def split: prod.splits if_splits)
  have tr: "regenerates (trace ?t6)" "handlers_of (trace ?t6) = handlers_of (trace t)"
    by (simp_all split: if_splits)
  show ?thesis
    unfolding R using st tr
    by (simp add: handleInitializingCluster_old_shape split: option.splits)
qed

subsection \<open>Regeneration of the cluster state view\<close>

text \<open>
  C8 as stated does not hold of the older version: its diagnostic operation
  \<^verbatim>\<open>PrintClusterStateView\<close> regenerates the cluster state view from the declaration as
  its first statement, whatever the lifecycle state. Run on a cluster in state Ready it
  regenerates the view and the state is still Ready afterwards.
\<close>

theorem print_state_view_counterexample:
  "clusterState (tick0 Ready) = Ready
   \<and> regenerates (trace (snd (PrintClusterStateView_old print0 (tick0 Ready))))
   \<and> clusterState (snd (PrintClusterStateView_old print0 (tick0 Ready))) = Ready
   \<and> fst (PrintClusterStateView_old print0 (tick0 Ready))
       = Responded 200 ''Cluster state view printed to screen''"
  by (simp add: PrintClusterStateView_old_def Let_def print0_def tick0_def cluster0_def
        clusterState_def emit_def)

text \<open>
  C8, amended. A reconcile tick regenerates the cluster state view from the declaration
  only when the declaration was fetched and the lifecycle state the tick starts from (an
  empty status read as NotExists) is NotExists or Reset; in particular no tick that starts
  from Ready regenerates it. Both versions. (The diagnostic operation of the older
  version is not a tick and is not covered.)
\<close>

theorem regeneration_only_when_initializing:
  "(regenerates (trace (snd (Reconcile \<omega> (t\<lparr>trace := []\<rparr>)))) \<longrightarrow>
      (case o_Get \<omega> of Inl e \<Rightarrow> False
       | Inr rc \<Rightarrow> tickState (Status_ClusterState rc) = NotExists
                   \<or> tickState (Status_ClusterState rc) = Reset))
   \<and> (regenerates (trace (snd (Reconcile_old \<omega> (t'\<lparr>trace := []\<rparr>)))) \<longrightarrow>
      (case o_Get \<omega> of Inl e \<Rightarrow> False
       | Inr rc \<Rightarrow> tickState (Status_ClusterState rc) = NotExists
                   \<or> tickState (Status_ClusterState rc) = Reset))
   \<and> (\<forall>rc. o_Get \<omega> = Inr rc \<and> Status_ClusterState rc = Ready \<longrightarrow>
         \<not> regenerates (trace (snd (Reconcile \<omega> (t\<lparr>trace := []\<rparr>))))
         \<and> \<not> regenerates (trace (snd (Reconcile_old \<omega> (t'\<lparr>trace := []\<rparr>)))))"
proof -
  have ready: "tickState Ready \<noteq> NotExists \<and> tickState Ready \<noteq> Reset"
    by (simp add: tickState_def state_defs)
  show ?thesis
    using Reconcile_regenerates [of \<omega> t] Reconcile_old_regenerates [of \<omega> t'] ready
    by (auto split: sum.splits)
qed

text \<open>A tick that starts from NotExists regenerates the view; ticks that start from
  Ready do not.\<close>

theorem regeneration_only_when_initializing_witness:
  "regenerates (trace (snd (Reconcile (env0 NotExists) ((tick0 NotExists)\<lparr>trace := []\<rparr>))))
   \<and> o_Get (env0 NotExists) = Inr (cluster0 NotExists)
   \<and> tickState (Status_ClusterState (cluster0 NotExists)) = NotExists
   \<and> o_Get (env0 Ready) = Inr (cluster0 Ready)
   \<and> Status_ClusterState (cluster0 Ready) = Ready
   \<and> \<not> regenerates (trace (snd (Reconcile (env0 Ready) ((tick0 Ready)\<lparr>trace := []\<rparr>))))
   \<and> \<not> regenerates (trace (snd (Reconcile_old (env0 Ready)
                                    ((tick0_old Ready False)\<lparr>trace := []\<rparr>))))"
proof -
  have h: "regenerates (trace (snd (Reconcile (env0 NotExists)
                                      ((tick0 NotExists)\<lparr>trace := []\<rparr>))))"
    using Reconcile_initial [of "env0 NotExists" "cluster0 NotExists"
                                "(tick0 NotExists)\<lparr>trace := []\<rparr>"]
    by (simp add: env0_def cluster0_def tickState_def NotExists_def)
  have g: "o_Get (env0 NotExists) = Inr (cluster0 NotExists)"
          "o_Get (env0 Ready) = Inr (cluster0 Ready)"
          "Status_ClusterState (cluster0 Ready) = Ready"
    by (simp_all add: env0_def cluster0_def)
  from regeneration_only_when_initializing
         [of "env0 NotExists" "tick0 NotExists" "tick0_old Ready False"]
       regeneration_only_when_initializing
         [of "env0 Ready" "tick0 Ready" "tick0_old Ready False"]
  show ?thesis using h g by (simp add: tickState_def NotExists_def cluster0_def)
qed

subsection \<open>A tick that starts from an empty state\<close>

text \<open>
  C9. A tick that fetches a declaration whose lifecycle-state string is empty works in
  state NotExists: it regenerates the cluster state view and enters the initialization
  handler, and no other handler. The result and the error it returns are those of the
  tick that fetches the same declaration with the state string \<open>NotExists\<close> under the
  same outcomes of the calls it makes, and that tick enters the same handler. Both
  versions; in the older one whatever the value of \<^verbatim>\<open>ClusterReset\<close>.
\<close>

theorem empty_state_initializes:
  assumes "o_Get \<omega> = Inr rc" and "length (Status_ClusterState rc) = 0"
  shows "State (snd (Reconcile \<omega> t)) = NotExists
       \<and> handlers_of (trace (snd (Reconcile \<omega> t))) = handlers_of (trace t) @ [HInitializing]
       \<and> regenerates (trace (snd (Reconcile \<omega> t)))
       \<and> fst (Reconcile \<omega> t) =
           fst (Reconcile (\<omega>\<lparr>o_Get := Inr (rc\<lparr>Status_ClusterState := NotExists\<rparr>)\<rparr>) t)
       \<and> handlers_of (trace (snd (Reconcile \<omega> t))) =
           handlers_of (trace (snd
             (Reconcile (\<omega>\<lparr>o_Get := Inr (rc\<lparr>Status_ClusterState := NotExists\<rparr>)\<rparr>) t)))
       \<and> State (snd (Reconcile_old \<omega> t')) = NotExists
       \<and> handlers_of (trace (snd (Reconcile_old \<omega> t'))) = handlers_of (trace t') @ [HInitializing]
       \<and> regenerates (trace (snd (Reconcile_old \<omega> t')))
       \<and> fst (Reconcile_old \<omega> t') =
           fst (Reconcile_old (\<omega>\<lparr>o_Get := Inr (rc\<lparr>Status_ClusterState := NotExists\<rparr>)\<rparr>) t')
       \<and> handlers_of (trace (snd (Reconcile_old \<omega> t'))) =
           handlers_of (trace (snd
             (Reconcile_old (\<omega>\<lparr>o_Get := Inr (rc\<lparr>Status_ClusterState := NotExists\<rparr>)\<rparr>) t')))"
proof -
  let ?rc = "rc\<lparr>Status_ClusterState := NotExists\<rparr>"
  let ?\<omega> = "\<omega>\<lparr>o_Get := Inr ?rc\<rparr>"
  have e: "tickState (Status_ClusterState rc) = NotExists"
    using assms(2) by (simp add: tickState_def)
  have n: "tickState (Status_ClusterState ?rc) = NotExists"
    by (simp add: tickState_def NotExists_def)
  have g: "o_Get ?\<omega> = Inr ?rc" by simp
  have f: "fst (handleInitializingCluster ?\<omega> t) = fst (handleInitializingCluster \<omega> t)"
    by (simp add: fst_handleInitializingCluster split: option.splits)
  show ?thesis
    using Reconcile_initial [OF assms(1) e, of t] Reconcile_initial [OF g n, of t]
          Reconcile_old_initial [OF assms(1) e, of t'] Reconcile_old_initial [OF g n, of t'] f
    by simp
qed

text \<open>An empty status with every step of the initialization succeeding: the tick enters
  the initialization handler and ends in Ready.\<close>

theorem empty_state_initializes_witness:
  "o_Get (env0 []) = Inr (cluster0 [])
   \<and> length (Status_ClusterState (cluster0 [])) = 0
   \<and> State (snd (Reconcile (env0 []) (tick0 Ready))) = NotExists
   \<and> handlers_of (trace (snd (Reconcile (env0 []) (tick0 Ready)))) = [HInitializing]
   \<and> handlers_of (trace (snd (Reconcile_old (env0 []) (tick0_old Ready True)))) = [HInitializing]
   \<and> clusterState (snd (Reconcile (env0 []) (tick0 Ready))) = Ready"
proof -
  have g: "o_Get (env0 []) = Inr (cluster0 [])" by (simp add: env0_def)
  have l: "length (Status_ClusterState (cluster0 [])) = 0" by (simp add: cluster0_def)
  have r: "clusterState (snd (Reconcile (env0 []) (tick0 Ready))) = Ready"
    by (simp add: Reconcile_def Reconcile_switch_def Reconcile_finish_def
          handleInitializingCluster_def Let_def env0_def succeeded_def cluster0_def)
  from empty_state_initializes [OF g l, of "tick0 Ready" "tick0_old Ready True"]
  show ?thesis using g l r by (simp add: tick0_def tick0_old_def)
qed

subsection \<open>A tick that cannot read the cluster state view\<close>

text \<open>
  C10. When the declaration is fetched, reading the stored cluster state view fails and
  the lifecycle state of the tick is not NotExists (in the newer version: neither
  NotExists nor Reset), the tick ends there. It returns a \<^verbatim>\<open>nil\<close> error and a requeue
  delay of 20 seconds, its only effects after the fetch are the attempt to read the view
  and one log line, it enters no handler, it sends no status to the API server, and the
  status of the fetched object is as fetched.
\<close>

theorem view_read_failure_skips_tick:
  assumes "o_Get \<omega> = Inr rc" and "o_getClusterStateView \<omega> = Some e"
    and "tickState (Status_ClusterState rc) \<noteq> NotExists"
  shows "(tickState (Status_ClusterState rc) \<noteq> Reset \<longrightarrow>
           fst (Reconcile \<omega> t) = (\<lparr>Requeue = False, RequeueAfter = 20 * Second\<rparr>, None)
           \<and> trace (snd (Reconcile \<omega> t)) =
               trace t @ [Println ''Reconcile call'', GetCluster, GetClusterStateView,
                          LogError e ''Could not perform reconcile loop'']
           \<and> handlers_of (trace (snd (Reconcile \<omega> t))) = handlers_of (trace t)
           \<and> status_updates (trace (snd (Reconcile \<omega> t))) = status_updates (trace t)
           \<and> clusterState (snd (Reconcile \<omega> t)) = Status_ClusterState rc)
       \<and> fst (Reconcile_old \<omega> t') = (\<lparr>Requeue = False, RequeueAfter = 20 * Second\<rparr>, None)
       \<and> trace (snd (Reconcile_old \<omega> t')) =
               trace t' @ [Println ''Reconcile call'', GetCluster, GetClusterStateView,
                           LogError e ''Could not perform reconcile loop'']
       \<and> handlers_of (trace (snd (Reconcile_old \<omega> t'))) = handlers_of (trace t')
       \<and> status_updates (trace (snd (Reconcile_old \<omega> t'))) = status_updates (trace t')
       \<and> clusterState (snd (Reconcile_old \<omega> t')) = Status_ClusterState rc"
  using assms
  by (simp add: Reconcile_def Reconcile_old_def Let_def tickState_def clusterState_def
           split: if_splits)

text \<open>A Ready cluster whose stored view cannot be read: both versions stop with a delay
  of 20 seconds, no handler and no write.\<close>

theorem view_read_failure_skips_tick_witness:
  "o_Get ((env0 Ready)\<lparr>o_getClusterStateView := Some err0\<rparr>) = Inr (cluster0 Ready)
   \<and> o_getClusterStateView ((env0 Ready)\<lparr>o_getClusterStateView := Some err0\<rparr>) = Some err0
   \<and> tickState (Status_ClusterState (cluster0 Ready)) \<noteq> NotExists
   \<and> tickState (Status_ClusterState (cluster0 Ready)) \<noteq> Reset
   \<and> fst (Reconcile ((env0 Ready)\<lparr>o_getClusterStateView := Some err0\<rparr>) (tick0 Ready))
       = (\<lparr>Requeue = False, RequeueAfter = 20000000000\<rparr>, None)
   \<and> handlers_of (trace (snd (Reconcile ((env0 Ready)\<lparr>o_getClusterStateView := Some err0\<rparr>)
                                 (tick0 Ready)))) = []
   \<and> status_updates (trace (snd (Reconcile ((env0 Ready)\<lparr>o_getClusterStateView := Some err0\<rparr>)
                                    (tick0 Ready)))) = []
   \<and> fst (Reconcile_old ((env0 Ready)\<lparr>o_getClusterStateView := Some err0\<rparr>)
             (tick0_old Ready False))
       = (\<lparr>Requeue = False, RequeueAfter = 20000000000\<rparr>, None)
   \<and> status_updates (trace (snd (Reconcile_old ((env0 Ready)\<lparr>o_getClusterStateView := Some err0\<rparr>)
                                    (tick0_old Ready False)))) = []"
proof -
  let ?\<omega> = "(env0 Ready)\<lparr>o_getClusterStateView := Some err0\<rparr>"
  have g: "o_Get ?\<omega> = Inr (cluster0 Ready)" by (simp add: env0_def)
  have v: "o_getClusterStateView ?\<omega> = Some err0" by simp
  have s: "tickState (Status_ClusterState (cluster0 Ready)) \<noteq> NotExists"
          "tickState (Status_ClusterState (cluster0 Ready)) \<noteq> Reset"
    by (simp_all add: tickState_def cluster0_def state_defs)
  from view_read_failure_skips_tick [OF g v s(1), of "tick0 Ready" "tick0_old Ready False"]
  show ?thesis using g v s by (simp add: Second_def tick0_def tick0_old_def)
qed

end
